theory Spec2Isabelle
  imports Main
begin

section \<open>Strings and paths\<close>

text \<open>
  Python strings are modelled as \<^typ>\<open>string\<close>. A character outside ASCII is carried as
  its UTF-8 bytes; the bytes of \<open>/\<close> and \<open>.\<close> never occur inside such a sequence, so
  splitting and searching agree with Python's on code points. \<open>str.lower\<close> is modelled
  on the ASCII letters only, and \<open>pathlib\<close> in its POSIX flavour (Python 3.4 to 3.13).
\<close>

definition lower_char :: "char \<Rightarrow> char" where
  "lower_char c =
     (case map_of (zip ''ABCDEFGHIJKLMNOPQRSTUVWXYZ'' ''abcdefghijklmnopqrstuvwxyz'') c of
        Some d \<Rightarrow> d
      | None \<Rightarrow> c)"

definition lower :: "string \<Rightarrow> string" where
  "lower s = map lower_char s"

text \<open>
  \<open>str.split(sep)\<close> for a one-character separator, on strings of any kind of
  character: never returns the empty list.
\<close>

fun split :: "'a \<Rightarrow> 'a list \<Rightarrow> 'a list list" where
  "split sep [] = [[]]"
| "split sep (x # xs) =
     (if x = sep then [] # split sep xs
      else (x # hd (split sep xs)) # tl (split sep xs))"

text \<open>\<open>str.rfind(c)\<close>: the highest index of \<open>c\<close>, \<open>None\<close> for Python's \<open>-1\<close>.\<close>

fun rfind :: "char \<Rightarrow> string \<Rightarrow> nat option" where
  "rfind c [] = None"
| "rfind c (x # xs) =
     (case rfind c xs of
        Some i \<Rightarrow> Some (Suc i)
      | None \<Rightarrow> if x = c then Some 0 else None)"

text \<open>
  \<open>PurePosixPath(p).name\<close>: the path is cut at \<open>/\<close>, empty components and \<open>.\<close>
  components are dropped, and the name is the last component left (empty when none is).
\<close>

definition path_name :: "string \<Rightarrow> string" where
  "path_name p =
     (case filter (\<lambda>x. x \<noteq> [] \<and> x \<noteq> ''.'') (split CHR ''/'' p) of
        [] \<Rightarrow> []
      | x # xs \<Rightarrow> last (x # xs))"

text \<open>
  \<open>PurePath.suffix\<close>:
  \<^verbatim>\<open>
    name = self.name
    i = name.rfind('.')
    if 0 < i < len(name) - 1: return name[i:]
    else: return ''
  \<close>
\<close>

definition path_suffix :: "string \<Rightarrow> string" where
  "path_suffix p =
     (let name = path_name p in
      case rfind CHR ''.'' name of
        None \<Rightarrow> []
      | Some i \<Rightarrow> if 0 < i \<and> int i < int (length name) - 1 then drop i name else [])"

section \<open>Format tables (config.py)\<close>

definition SUPPORTED_AUDIO_MIMES :: "string set" where
  "SUPPORTED_AUDIO_MIMES =
     {''audio/mpeg'', ''audio/mp4'', ''audio/x-m4a'', ''audio/mp3'', ''audio/wav'',
      ''audio/x-wav'', ''audio/wave'', ''audio/ogg'', ''audio/opus'', ''audio/flac'',
      ''audio/x-flac'', ''audio/aac'', ''audio/aacp'', ''audio/amr'', ''audio/3gpp'',
      ''audio/webm'', ''audio/wma'', ''audio/x-ms-wma''}"

definition SUPPORTED_VIDEO_MIMES :: "string set" where
  "SUPPORTED_VIDEO_MIMES =
     {''video/mp4'', ''video/mpeg'', ''video/quicktime'', ''video/x-matroska'',
      ''video/webm'', ''video/x-msvideo'', ''video/x-flv'', ''video/3gpp'',
      ''video/3gpp2''}"

definition AUDIO_EXTENSIONS :: "string set" where
  "AUDIO_EXTENSIONS =
     {''.mp3'', ''.m4a'', ''.wav'', ''.ogg'', ''.opus'',
      ''.flac'', ''.aac'', ''.amr'', ''.wma'', ''.webm''}"

definition VIDEO_EXTENSIONS :: "string set" where
  "VIDEO_EXTENSIONS =
     {''.mp4'', ''.avi'', ''.mov'', ''.mkv'', ''.webm'',
      ''.flv'', ''.3gp'', ''.3g2'', ''.mpeg'', ''.mpg''}"

section \<open>Format classifier (bot.py)\<close>

text \<open>Truth value of an \<open>Optional[str]\<close>: \<open>None\<close> and the empty string are false.\<close>

fun truthy :: "'a list option \<Rightarrow> bool" where
  "truthy None = False"
| "truthy (Some s) = (s \<noteq> [])"

text \<open>\<open>Path(file_name).suffix.lower()\<close>\<close>

definition ext_of :: "string \<Rightarrow> string" where
  "ext_of file_name = lower (path_suffix file_name)"

definition is_audio_file :: "string option \<Rightarrow> string option \<Rightarrow> bool" where
  "is_audio_file mime_type file_name =
     (if truthy mime_type \<and> the mime_type \<in> SUPPORTED_AUDIO_MIMES then True
      else if truthy file_name then ext_of (the file_name) \<in> AUDIO_EXTENSIONS
      else False)"

definition is_video_file :: "string option \<Rightarrow> string option \<Rightarrow> bool" where
  "is_video_file mime_type file_name =
     (if truthy mime_type \<and> the mime_type \<in> SUPPORTED_VIDEO_MIMES then True
      else if truthy file_name then ext_of (the file_name) \<in> VIDEO_EXTENSIONS
      else False)"

text \<open>
  The decision \<open>handle_media\<close> takes for a document (bot.py, lines 244 to 257): the audio
  test is made first, the video test only when it fails.
\<close>

datatype format = Audio | Video | Unsupported

definition classify :: "string option \<Rightarrow> string option \<Rightarrow> format" where
  "classify mime_type file_name =
     (if is_audio_file mime_type file_name then Audio
      else if is_video_file mime_type file_name then Video
      else Unsupported)"

section \<open>Startup configuration (config.py)\<close>

text \<open>
  The values of environment variables are strings of Unicode code points, since
  \<open>str.strip()\<close> and \<open>int()\<close> look at the Unicode class of a character.
\<close>

type_synonym ustr = "nat list"

text \<open>
  The white space of \<open>str.isspace\<close> and \<open>str.strip()\<close> (CPython's
  \<open>Py_UNICODE_ISSPACE\<close>).
\<close>

definition unicode_isspace :: "nat \<Rightarrow> bool" where
  "unicode_isspace ch \<longleftrightarrow>
     ch \<in> set [0x09, 0x0A, 0x0B, 0x0C, 0x0D, 0x1C, 0x1D, 0x1E, 0x1F, 0x20, 0x85, 0xA0,
               0x1680, 0x2000, 0x2001, 0x2002, 0x2003, 0x2004, 0x2005, 0x2006, 0x2007,
               0x2008, 0x2009, 0x200A, 0x2028, 0x2029, 0x202F, 0x205F, 0x3000]"

definition strip :: "ustr \<Rightarrow> ustr" where
  "strip s = rev (dropWhile unicode_isspace (rev (dropWhile unicode_isspace s)))"

text \<open>
  What \<open>int()\<close> takes from the interpreter: the decimal value of a character outside
  ASCII (\<open>Py_UNICODE_TODECIMAL\<close>, a table that grows with the Unicode version), and the
  limit on the number of digits of a literal (\<open>sys.get_int_max_str_digits()\<close>, 0 for no
  limit).
\<close>

record python =
  todecimal :: "nat \<Rightarrow> nat option"
  max_str_digits :: nat

text \<open>
  \<open>int(s)\<close> in base ten. First every character outside ASCII is replaced: white space
  by a blank, a decimal digit by its ASCII digit; any other one makes the literal invalid.
\<close>

fun to_ascii :: "python \<Rightarrow> ustr \<Rightarrow> ustr option" where
  "to_ascii py [] = Some []"
| "to_ascii py (ch # s) =
     (if ch < 127 then map_option (Cons ch) (to_ascii py s)
      else if unicode_isspace ch then map_option (Cons 0x20) (to_ascii py s)
      else (case todecimal py ch of
              None \<Rightarrow> None
            | Some d \<Rightarrow> map_option (Cons (0x30 + d)) (to_ascii py s)))"

text \<open>The white space \<open>int()\<close> skips around the ASCII literal (\<open>Py_ISSPACE\<close>).\<close>

definition py_isspace :: "nat \<Rightarrow> bool" where
  "py_isspace ch \<longleftrightarrow> ch \<in> set [0x09, 0x0A, 0x0B, 0x0C, 0x0D, 0x20]"

definition is_digit :: "nat \<Rightarrow> bool" where
  "is_digit ch \<longleftrightarrow> 0x30 \<le> ch \<and> ch \<le> 0x39"

text \<open>
  The digits of the literal, which single underscores may group: the value, or \<open>None\<close>
  for a character that is no digit and for an underscore that does not stand between two
  digits.
\<close>

fun digits_val :: "nat \<Rightarrow> ustr \<Rightarrow> nat option" where
  "digits_val acc [] = Some acc"
| "digits_val acc [c] = (if is_digit c then Some (10 * acc + (c - 0x30)) else None)"
| "digits_val acc (c # d # cs) =
     (if c = 0x5F then
        (if is_digit d then digits_val (10 * acc + (d - 0x30)) cs else None)
      else if is_digit c then digits_val (10 * acc + (c - 0x30)) (d # cs)
      else None)"

definition parse_nat :: "python \<Rightarrow> ustr \<Rightarrow> nat option" where
  "parse_nat py s =
     (case s of
        [] \<Rightarrow> None
      | c # cs \<Rightarrow>
          if \<not> is_digit c then None
          else if 0 < max_str_digits py \<and> max_str_digits py < length (filter is_digit s)
            then None
          else digits_val (c - 0x30) cs)"

text \<open>
  \<open>None\<close> stands for \<open>ValueError\<close>. One sign may lead, right before the first digit.
\<close>

definition py_int :: "python \<Rightarrow> ustr \<Rightarrow> int option" where
  "py_int py s =
     (case to_ascii py s of
        None \<Rightarrow> None
      | Some a \<Rightarrow>
         (case rev (dropWhile py_isspace (rev (dropWhile py_isspace a))) of
            [] \<Rightarrow> None
          | c # cs \<Rightarrow>
              if c = 0x2D then map_option (\<lambda>n. - int n) (parse_nat py cs)
              else if c = 0x2B then map_option int (parse_nat py cs)
              else map_option int (parse_nat py (c # cs))))"

text \<open>
  \<^verbatim>\<open>{int(uid.strip()) for uid in ALLOWED_USER_IDS_STR.split(",") if uid.strip()}\<close>:
  blank items are skipped, the first item that is no integer raises \<open>ValueError\<close>.
\<close>

fun user_ids :: "python \<Rightarrow> ustr list \<Rightarrow> int set option" where
  "user_ids py [] = Some {}"
| "user_ids py (uid # uids) =
     (if strip uid \<noteq> [] then
        (case py_int py (strip uid) of
           None \<Rightarrow> None
         | Some n \<Rightarrow> map_option (insert n) (user_ids py uids))
      else user_ids py uids)"

text \<open>
  Importing \<open>config\<close> either ends the process (\<open>sys.exit(1)\<close> after a line on stderr) or
  leaves the module loaded with the token, the whitelist and the lines printed on
  stderr. The environment is the one \<open>os.getenv\<close> reads after \<open>load_dotenv()\<close>; the
  comma has code point 44.
\<close>

datatype startup = Exit int "string list" | Loaded ustr "int set" "string list"

definition load_config :: "python \<Rightarrow> (string \<rightharpoonup> ustr) \<Rightarrow> startup" where
  "load_config py getenv =
     (let TELEGRAM_BOT_TOKEN = getenv ''TELEGRAM_BOT_TOKEN'' in
      if \<not> truthy TELEGRAM_BOT_TOKEN then
        Exit 1 [''ERROR: TELEGRAM_BOT_TOKEN not set in .env file'']
      else
        let ALLOWED_USER_IDS_STR =
              (case getenv ''ALLOWED_USER_IDS'' of None \<Rightarrow> [] | Some v \<Rightarrow> v)
        in
        case (if ALLOWED_USER_IDS_STR \<noteq> []
              then user_ids py (split 44 ALLOWED_USER_IDS_STR) else Some {}) of
          None \<Rightarrow>
            Exit 1 [''ERROR: Invalid ALLOWED_USER_IDS format. Must be comma-separated integers.'']
        | Some ALLOWED_USER_IDS \<Rightarrow>
            Loaded (the TELEGRAM_BOT_TOKEN) ALLOWED_USER_IDS
              (if ALLOWED_USER_IDS = {}
               then [''WARNING: No user IDs in whitelist. Bot will not respond to anyone.'']
               else []))"

definition is_user_allowed :: "int set \<Rightarrow> int \<Rightarrow> bool" where
  "is_user_allowed ALLOWED_USER_IDS user_id \<longleftrightarrow> user_id \<in> ALLOWED_USER_IDS"

section \<open>Message texts (bot.py)\<close>

definition DENIED_PRIVATE :: string where
  "DENIED_PRIVATE =
     [CHR 0xE2, CHR 0x9B, CHR 0x94] @ '' Access denied. This bot is private.''"

definition ACCESS_DENIED :: string where
  "ACCESS_DENIED =
     [CHR 0xE2, CHR 0x9B, CHR 0x94] @ '' Access denied.''"

definition WELCOME :: string where
  "WELCOME =
     [CHR 0xF0, CHR 0x9F, CHR 0x8E, CHR 0xA4] @ '' Pink Telegram Transcriber'' @
     [CHR 0x0A, CHR 0x0A] @ ''Send me audio or video and I'' @ [CHR 0x27] @
     ''ll transcribe it to text.'' @ [CHR 0x0A, CHR 0x0A] @ ''Supported formats:'' @
     [CHR 0x0A, CHR 0xE2, CHR 0x80, CHR 0xA2] @ '' Voice messages'' @
     [CHR 0x0A, CHR 0xE2, CHR 0x80, CHR 0xA2] @ '' Video notes (circles/'' @
     [CHR 0xD0, CHR 0xBA, CHR 0xD1, CHR 0x80, CHR 0xD1, CHR 0x83, CHR 0xD0, CHR 0xB6, CHR 0xD0, CHR 0xBE, CHR 0xD1, CHR 0x87, CHR 0xD0, CHR 0xBA, CHR 0xD0, CHR 0xB8] @
     '')'' @ [CHR 0x0A, CHR 0xE2, CHR 0x80, CHR 0xA2] @
     '' Audio files (MP3, M4A, WAV, OGG, FLAC, etc.)'' @
     [CHR 0x0A, CHR 0xE2, CHR 0x80, CHR 0xA2] @
     '' Video files (audio will be extracted)'' @ [CHR 0x0A, CHR 0x0A] @
     ''Just send - I'' @ [CHR 0x27] @ ''ll handle the rest!''"

definition UNSUPPORTED_FORMAT :: string where
  "UNSUPPORTED_FORMAT =
     [CHR 0xE2, CHR 0x9A, CHR 0xA0, CHR 0xEF, CHR 0xB8, CHR 0x8F] @
     '' Unsupported file format.'' @ [CHR 0x0A, CHR 0x0A] @
     ''Supported formats: audio (MP3, WAV, M4A, OGG, FLAC, etc.) and video files (audio will be extracted).''"

definition PROCESSING_VIDEO :: string where
  "PROCESSING_VIDEO =
     [CHR 0xF0, CHR 0x9F, CHR 0x8E, CHR 0xAC] @ '' Processing video...''"

definition TRANSCRIBING :: string where
  "TRANSCRIBING =
     [CHR 0xF0, CHR 0x9F, CHR 0x8E, CHR 0xA7] @ '' Transcribing...''"

definition EXTRACTING :: string where
  "EXTRACTING =
     [CHR 0xF0, CHR 0x9F, CHR 0x8E, CHR 0xAC] @ '' Extracting audio from video...''"

definition ERROR_PREFIX :: string where
  "ERROR_PREFIX =
     [CHR 0xE2, CHR 0x9D, CHR 0x8C] @ '' Error: ''"

definition PLEASE_SEND :: string where
  "PLEASE_SEND =
     [CHR 0xF0, CHR 0x9F, CHR 0x8E, CHR 0xA4] @
     '' Please send audio or video for transcription.'' @ [CHR 0x0A, CHR 0x0A] @
     ''Supported formats:'' @ [CHR 0x0A, CHR 0xE2, CHR 0x80, CHR 0xA2] @
     '' Voice messages'' @ [CHR 0x0A, CHR 0xE2, CHR 0x80, CHR 0xA2] @
     '' Video notes (circles/'' @
     [CHR 0xD0, CHR 0xBA, CHR 0xD1, CHR 0x80, CHR 0xD1, CHR 0x83, CHR 0xD0, CHR 0xB6, CHR 0xD0, CHR 0xBE, CHR 0xD1, CHR 0x87, CHR 0xD0, CHR 0xBA, CHR 0xD0, CHR 0xB8] @
     '')'' @ [CHR 0x0A, CHR 0xE2, CHR 0x80, CHR 0xA2] @
     '' Audio files (MP3, M4A, WAV, OGG, FLAC, etc.)'' @
     [CHR 0x0A, CHR 0xE2, CHR 0x80, CHR 0xA2] @
     '' Video files (audio will be extracted)''"

section \<open>Effects\<close>

text \<open>
  An exception of class \<open>Exception\<close> is a value carrying its \<open>str(e)\<close>. The program
  tells \<open>telegram.error.BadRequest\<close> from every other class, so the model does too.
  Signals outside \<open>Exception\<close> (cancellation of the worker task, a keyboard interrupt)
  are not part of the model.
\<close>

datatype exn = BadRequest string | OtherException string

fun str_exn :: "exn \<Rightarrow> string" where
  "str_exn (BadRequest m) = m"
| "str_exn (OtherException m) = m"

text \<open>
  A job is the tuple put on \<open>media_queue\<close>. The originating message is named by its
  \<open>message_id\<close>, and the status message by the job it was sent for.
\<close>

record job =
  file_id :: string
  message_id :: int
  is_video :: bool
  file_name :: "string option"

text \<open>
  The calls made to the messaging platform: \<open>status_msg.edit_text(text)\<close> on the status
  message of the job of a message, and \<open>message.reply_text(text)\<close> on a message.
\<close>

datatype call = EditStatus int string | ReplyText int string

text \<open>
  The place of a call in the source: the two progress edits of the worker (lines 145 and
  161), the edit and the reply that carry the transcribed text (lines 177 and 180), the
  edit that carries the error description (line 189), and the replies of the handlers.
\<close>

datatype site = ExtractingEdit | TranscribingEdit | ResultEdit | ResultReply | ErrorEdit | HandlerReply

text \<open>
  The world the program acts on: the files that exist, the platform calls made so far, each
  with its place and with what the platform answered (\<open>None\<close>: accepted), the lines
  printed, and the items of \<open>media_queue\<close>, head first.
\<close>

record world =
  files :: "string set"
  calls :: "(site \<times> call \<times> exn option) list"
  printed :: "string list"
  queue :: "job list"

type_synonym 'a io = "world \<Rightarrow> (exn + 'a) \<times> world"

definition io_return :: "'a \<Rightarrow> 'a io" where
  "io_return x w = (Inr x, w)"

definition io_raise :: "exn \<Rightarrow> 'a io" where
  "io_raise e w = (Inl e, w)"

definition io_bind :: "'a io \<Rightarrow> ('a \<Rightarrow> 'b io) \<Rightarrow> 'b io" where
  "io_bind m f w = (case m w of (Inl e, w') \<Rightarrow> (Inl e, w') | (Inr x, w') \<Rightarrow> f x w')"

text \<open>\<open>try: m except Exception as e: h(e)\<close>\<close>

definition try_except :: "'a io \<Rightarrow> (exn \<Rightarrow> 'a io) \<Rightarrow> 'a io" where
  "try_except m h w = (case m w of (Inl e, w') \<Rightarrow> h e w' | (Inr x, w') \<Rightarrow> (Inr x, w'))"

text \<open>\<open>try: m except BadRequest: h\<close>: any other exception goes on.\<close>

definition try_except_BadRequest :: "'a io \<Rightarrow> 'a io \<Rightarrow> 'a io" where
  "try_except_BadRequest m h w =
     (case m w of
        (Inl (BadRequest msg), w') \<Rightarrow> h w'
      | (Inl (OtherException msg), w') \<Rightarrow> (Inl (OtherException msg), w')
      | (Inr x, w') \<Rightarrow> (Inr x, w'))"

text \<open>\<open>try: m finally: f\<close>: \<open>f\<close> runs on every way out; what it raises replaces the rest.\<close>

definition try_finally :: "'a io \<Rightarrow> unit io \<Rightarrow> 'a io" where
  "try_finally m f w =
     (case m w of (r, w') \<Rightarrow>
        (case f w' of (Inl e, w'') \<Rightarrow> (Inl e, w'') | (Inr u, w'') \<Rightarrow> (r, w'')))"

text \<open>
  What lies outside the program is given by an environment: one answer for every place where
  the worker calls the outside while it handles one job. Each place is reached at most
  once per job.
\<close>

record env =
  tempdir :: string
  mkdir_result :: "exn option"
  get_file_result :: "exn option"
  download_result :: "exn option"
  download_leaves_file :: bool
  edit_extracting_result :: "exn option"
  ffmpeg_result :: "exn + int"
  ffmpeg_writes_output :: bool
  remove_video_result :: "exn option"
  edit_transcribing_result :: "exn option"
  transcribe_result :: "exn + string"
  remove_audio_result :: "exn option"
  edit_text_result :: "exn option"
  reply_text_result :: "exn option"
  cleanup_download_result :: "exn option"
  cleanup_audio_result :: "exn option"
  edit_error_result :: "exn option"

definition of_result :: "exn option \<Rightarrow> unit io" where
  "of_result r = (case r of None \<Rightarrow> io_return () | Some e \<Rightarrow> io_raise e)"

definition py_print :: "string \<Rightarrow> unit io" where
  "py_print line w = (Inr (), w\<lparr>printed := printed w @ [line]\<rparr>)"

definition edit_text :: "site \<Rightarrow> int \<Rightarrow> string \<Rightarrow> exn option \<Rightarrow> unit io" where
  "edit_text at mid text r w =
     of_result r (w\<lparr>calls := calls w @ [(at, EditStatus mid text, r)]\<rparr>)"

definition reply_text :: "site \<Rightarrow> int \<Rightarrow> string \<Rightarrow> exn option \<Rightarrow> unit io" where
  "reply_text at mid text r w =
     of_result r (w\<lparr>calls := calls w @ [(at, ReplyText mid text, r)]\<rparr>)"

definition path_exists :: "string \<Rightarrow> bool io" where
  "path_exists p w = (Inr (p \<in> files w), w)"

text \<open>
  \<open>os.remove(p)\<close>: \<open>FileNotFoundError\<close> when there is no such file; otherwise the file
  is removed unless the system refuses, and then it stays.
\<close>

definition os_remove :: "string \<Rightarrow> exn option \<Rightarrow> unit io" where
  "os_remove p r w =
     (if p \<notin> files w then
        (Inl (OtherException
                (''[Errno 2] No such file or directory: '' @ [CHR 0x27] @ p @ [CHR 0x27])), w)
      else (case r of
              Some e \<Rightarrow> (Inl e, w)
            | None \<Rightarrow> (Inr (), w\<lparr>files := files w - {p}\<rparr>)))"

text \<open>\<open>file.download_to_drive(p)\<close>: a failed download may leave a partial file.\<close>

definition download_to_drive :: "string \<Rightarrow> exn option \<Rightarrow> bool \<Rightarrow> unit io" where
  "download_to_drive p r leaves w =
     (case r of
        None \<Rightarrow> (Inr (), w\<lparr>files := insert p (files w)\<rparr>)
      | Some e \<Rightarrow> (Inl e, if leaves then w\<lparr>files := insert p (files w)\<rparr> else w))"

text \<open>
  \<open>subprocess.run([ffmpeg, ..., -y, out])\<close>: raises when the process cannot be started,
  otherwise gives the return code; the process may have written \<open>out\<close>, whatever its code.
\<close>

definition subprocess_run :: "string \<Rightarrow> exn + int \<Rightarrow> bool \<Rightarrow> int io" where
  "subprocess_run out r writes w =
     (case r of
        Inl e \<Rightarrow> (Inl e, w)
      | Inr returncode \<Rightarrow>
          (Inr returncode, if writes then w\<lparr>files := insert out (files w)\<rparr> else w))"

definition transcribe :: "string \<Rightarrow> exn + string \<Rightarrow> string io" where
  "transcribe p r w = (r, w)"

section \<open>Transcoder adapter (bot.py)\<close>

definition extract_audio_from_video :: "string \<Rightarrow> string \<Rightarrow> exn + int \<Rightarrow> bool \<Rightarrow> bool io" where
  "extract_audio_from_video video_path output_path r writes =
     try_except
       (io_bind (subprocess_run output_path r writes)
          (\<lambda>returncode. io_return (returncode = 0)))
       (\<lambda>e. io_bind (py_print (''[Error] Failed to extract audio: '' @ str_exn e))
          (\<lambda>_. io_return False))"

section \<open>Worker (bot.py)\<close>

text \<open>\<open>str(n)\<close> for the message identifier.\<close>

fun str_nat :: "nat \<Rightarrow> string" where
  "str_nat n =
     (if n < 10 then [''0123456789'' ! n]
      else str_nat (n div 10) @ [''0123456789'' ! (n mod 10)])"

declare str_nat.simps [simp del]

definition str_int :: "int \<Rightarrow> string" where
  "str_int i = (if i < 0 then CHR ''-'' # str_nat (nat (- i)) else str_nat (nat i))"

definition temp_dir :: "env \<Rightarrow> string" where
  "temp_dir env = tempdir env @ ''/pink-telegram-transcriber''"

definition file_ext :: "job \<Rightarrow> string" where
  "file_ext j =
     (let ext = (if truthy (file_name j) then path_suffix (the (file_name j)) else [])
      in if ext = [] then (if is_video j then ''.mp4'' else ''.mp3'') else ext)"

definition download_path :: "env \<Rightarrow> job \<Rightarrow> string" where
  "download_path env j = temp_dir env @ ''/'' @ str_int (message_id j) @ file_ext j"

definition audio_path :: "env \<Rightarrow> job \<Rightarrow> string" where
  "audio_path env j =
     (if is_video j then temp_dir env @ ''/'' @ str_int (message_id j) @ ''_audio.mp3''
      else download_path env j)"

text \<open>
  Lines 138 to 173: download, extraction for a video, transcription, removal of the
  audio file. The value is the transcribed text.
\<close>

definition prepare :: "env \<Rightarrow> job \<Rightarrow> string io" where
  "prepare env j =
     io_bind (of_result (get_file_result env)) (\<lambda>_.
     io_bind (download_to_drive (download_path env j)
                (download_result env) (download_leaves_file env)) (\<lambda>_.
     io_bind
       (if is_video j then
          io_bind (try_except_BadRequest
                     (edit_text ExtractingEdit (message_id j) EXTRACTING
                        (edit_extracting_result env))
                     (io_return ())) (\<lambda>_.
          io_bind (extract_audio_from_video (download_path env j) (audio_path env j)
                     (ffmpeg_result env) (ffmpeg_writes_output env)) (\<lambda>success.
          io_bind (if \<not> success
                   then io_raise (OtherException ''Failed to extract audio from video'')
                   else io_return ()) (\<lambda>_.
          io_bind (os_remove (download_path env j) (remove_video_result env)) (\<lambda>_.
          try_except_BadRequest
            (edit_text TranscribingEdit (message_id j) TRANSCRIBING
               (edit_transcribing_result env))
            (io_return ())))))
        else io_return ()) (\<lambda>_.
     io_bind (transcribe (audio_path env j) (transcribe_result env)) (\<lambda>transcribed_text.
     io_bind (io_bind (path_exists (audio_path env j)) (\<lambda>ex.
                if ex then os_remove (audio_path env j) (remove_audio_result env)
                else io_return ())) (\<lambda>_.
     io_return transcribed_text)))))"

text \<open>Lines 175 to 180: the edit, and the reply when the edit is a bad request.\<close>

definition deliver :: "env \<Rightarrow> job \<Rightarrow> string \<Rightarrow> unit io" where
  "deliver env j transcribed_text =
     try_except_BadRequest
       (edit_text ResultEdit (message_id j) transcribed_text (edit_text_result env))
       (reply_text ResultReply (message_id j) transcribed_text (reply_text_result env))"

text \<open>Lines 182 to 189: the handler of \<open>except Exception as e\<close>.\<close>

definition on_error :: "env \<Rightarrow> job \<Rightarrow> exn \<Rightarrow> unit io" where
  "on_error env j e =
     io_bind (io_bind (path_exists (download_path env j)) (\<lambda>ex.
                if ex then os_remove (download_path env j) (cleanup_download_result env)
                else io_return ())) (\<lambda>_.
     io_bind (if is_video j then
                io_bind (path_exists (audio_path env j)) (\<lambda>ex.
                  if ex then os_remove (audio_path env j) (cleanup_audio_result env)
                  else io_return ())
              else io_return ()) (\<lambda>_.
     edit_text ErrorEdit (message_id j) (ERROR_PREFIX @ str_exn e) (edit_error_result env)))"

text \<open>
  \<open>media_queue.task_done()\<close> lowers the queue's count of unfinished items, which nothing
  in the program reads.
\<close>

definition task_done :: "unit io" where
  "task_done = io_return ()"

text \<open>Lines 137 to 192: the inner \<open>try\<close> statement.\<close>

definition process_job :: "env \<Rightarrow> job \<Rightarrow> unit io" where
  "process_job env j =
     try_finally
       (try_except (io_bind (prepare env j) (deliver env j)) (on_error env j))
       task_done"

text \<open>
  One turn of the loop of \<open>media_worker\<close> on a job taken from the queue (lines 120 to
  197): what the inner statement lets through is printed, and the loop goes on.
\<close>

definition handle_job :: "env \<Rightarrow> job \<Rightarrow> unit io" where
  "handle_job env j =
     try_except
       (io_bind (of_result (mkdir_result env)) (\<lambda>_. process_job env j))
       (\<lambda>e. py_print (''[Worker] Error: '' @ str_exn e))"

section \<open>Handlers (bot.py)\<close>

text \<open>
  The bot polls for every type of update (\<open>allowed_updates=Update.ALL_TYPES\<close>) and
  registers its handlers without a filter on the type, so a handler is called for a new
  message, an edited message, a channel post and an edited channel post alike. The
  filters, and \<open>update.effective_user\<close>, look at the message the update carries
  (\<open>update.effective_message\<close>); \<open>update.message\<close> is that message for a new message
  and \<open>None\<close> for the three other kinds.
\<close>

datatype update_kind = NewMessage | EditedMessage | ChannelPost | EditedChannelPost

text \<open>
  An update as the handlers read it: its kind, the sender if there is one, and of the
  message it carries the identifier, the text and the bot command it starts with, and the
  attachments. A voice message and a video note carry a \<open>file_id\<close>; an audio and a video
  carry a \<open>file_id\<close> and an optional \<open>file_name\<close>; a document carries a \<open>file_id\<close>,
  an optional \<open>mime_type\<close> and an optional \<open>file_name\<close>.
\<close>

record update =
  kind :: update_kind
  effective_user :: "int option"
  msg_id :: int
  msg_text :: "string option"
  msg_command :: "string option"
  msg_voice :: "string option"
  msg_video_note :: "string option"
  msg_audio :: "(string \<times> string option) option"
  msg_video :: "(string \<times> string option) option"
  msg_document :: "(string \<times> string option \<times> string option) option"

text \<open>
  Lines 211 to 257 of \<open>handle_media\<close>: the values of \<open>file_id\<close>, \<open>is_video\<close> and
  \<open>file_name\<close> after the chain of tests; \<open>None\<close> for a document of no supported format,
  where the handler answers and returns.
\<close>

definition select_media :: "update \<Rightarrow> (string option \<times> bool \<times> string option) option" where
  "select_media u =
     (case msg_voice u of
        Some fid \<Rightarrow> Some (Some fid, False, Some ''voice.ogg'')
      | None \<Rightarrow>
     (case msg_video_note u of
        Some fid \<Rightarrow> Some (Some fid, True, Some ''video_note.mp4'')
      | None \<Rightarrow>
     (case msg_audio u of
        Some (fid, fname) \<Rightarrow>
          Some (Some fid, False, if truthy fname then fname else Some ''audio.mp3'')
      | None \<Rightarrow>
     (case msg_video u of
        Some (fid, fname) \<Rightarrow>
          Some (Some fid, True, if truthy fname then fname else Some ''video.mp4'')
      | None \<Rightarrow>
     (case msg_document u of
        Some (fid, mime_type, fname) \<Rightarrow>
          (case classify mime_type fname of
             Audio \<Rightarrow> Some (Some fid, False, fname)
           | Video \<Rightarrow> Some (Some fid, True, fname)
           | Unsupported \<Rightarrow> None)
      | None \<Rightarrow> Some (None, False, None))))))"

text \<open>\<open>await media_queue.put(item)\<close> on the unbounded queue: the item goes to the tail.\<close>

definition queue_put :: "job \<Rightarrow> unit io" where
  "queue_put j w = (Inr (), w\<lparr>queue := queue w @ [j]\<rparr>)"

text \<open>
  \<open>AttributeError\<close>, raised by an attribute access on \<open>None\<close>.
\<close>

definition none_has_no :: "string \<Rightarrow> exn" where
  "none_has_no attr =
     OtherException ([CHR 0x27] @ ''NoneType'' @ [CHR 0x27] @ '' object has no attribute '' @
                     [CHR 0x27] @ attr @ [CHR 0x27])"

text \<open>\<open>update.effective_user.id\<close>\<close>

definition effective_user_id :: "update \<Rightarrow> int io" where
  "effective_user_id u =
     (case effective_user u of
        None \<Rightarrow> io_raise (none_has_no ''id'')
      | Some uid \<Rightarrow> io_return uid)"

text \<open>The access to the attribute \<open>attr\<close> of \<open>update.message\<close>.\<close>

definition update_message :: "update \<Rightarrow> string \<Rightarrow> unit io" where
  "update_message u attr =
     (if kind u = NewMessage then io_return () else io_raise (none_has_no attr))"

text \<open>
  Every path of a handler makes at most one call to the platform; \<open>r\<close> is the answer to
  it. What a handler raises goes to the library that called it.
\<close>

definition handle_media :: "int set \<Rightarrow> update \<Rightarrow> exn option \<Rightarrow> unit io" where
  "handle_media ALLOWED_USER_IDS u r =
     io_bind (effective_user_id u) (\<lambda>user_id.
     if \<not> is_user_allowed ALLOWED_USER_IDS user_id then
       io_bind (update_message u ''reply_text'') (\<lambda>_.
       reply_text HandlerReply (msg_id u) ACCESS_DENIED r)
     else
       io_bind (update_message u ''voice'') (\<lambda>_.
       (case select_media u of
          None \<Rightarrow> reply_text HandlerReply (msg_id u) UNSUPPORTED_FORMAT r
        | Some (fid, video, fname) \<Rightarrow>
            if \<not> truthy fid then io_return ()
            else
              io_bind (reply_text HandlerReply (msg_id u)
                         (if video then PROCESSING_VIDEO else TRANSCRIBING) r) (\<lambda>_.
              queue_put \<lparr>file_id = the fid, message_id = msg_id u,
                         is_video = video, file_name = fname\<rparr>))))"

definition handle_text_message :: "int set \<Rightarrow> update \<Rightarrow> exn option \<Rightarrow> unit io" where
  "handle_text_message ALLOWED_USER_IDS u r =
     io_bind (effective_user_id u) (\<lambda>user_id.
     if \<not> is_user_allowed ALLOWED_USER_IDS user_id then io_return ()
     else
       io_bind (update_message u ''reply_text'') (\<lambda>_.
       reply_text HandlerReply (msg_id u) PLEASE_SEND r))"

definition start :: "int set \<Rightarrow> update \<Rightarrow> exn option \<Rightarrow> unit io" where
  "start ALLOWED_USER_IDS u r =
     io_bind (effective_user_id u) (\<lambda>user_id.
     io_bind (update_message u ''reply_text'') (\<lambda>_.
     if \<not> is_user_allowed ALLOWED_USER_IDS user_id then
       reply_text HandlerReply (msg_id u) DENIED_PRIVATE r
     else reply_text HandlerReply (msg_id u) WELCOME r))"

text \<open>
  The handlers registered by \<open>create_application\<close>, in their order; the first one whose
  filter accepts the update runs, and no other. The command handler compares the command
  in lower case and takes messages and edited messages only; the message handlers take
  every kind.
\<close>

definition dispatch :: "int set \<Rightarrow> update \<Rightarrow> exn option \<Rightarrow> unit io" where
  "dispatch ALLOWED_USER_IDS u r =
     (if map_option lower (msg_command u) = Some ''start'' \<and>
         (kind u = NewMessage \<or> kind u = EditedMessage)
        then start ALLOWED_USER_IDS u r
      else if msg_voice u \<noteq> None then handle_media ALLOWED_USER_IDS u r
      else if msg_video_note u \<noteq> None then handle_media ALLOWED_USER_IDS u r
      else if msg_audio u \<noteq> None then handle_media ALLOWED_USER_IDS u r
      else if msg_video u \<noteq> None then handle_media ALLOWED_USER_IDS u r
      else if msg_document u \<noteq> None then handle_media ALLOWED_USER_IDS u r
      else if truthy (msg_text u) \<and> msg_command u = None
        then handle_text_message ALLOWED_USER_IDS u r
      else io_return ())"

section \<open>The queue and its one worker\<close>

text \<open>
  \<open>post_init\<close> creates the queue empty and starts one worker task with
  \<open>asyncio.create_task\<close>. A worker task is either waiting in \<open>media_queue.get()\<close>
  (\<open>None\<close>) or holds the job it took last; \<open>workers\<close> lists the tasks there are. Two
  history lists record the jobs in the order they were put on the queue and in the order
  a worker finished with them.
\<close>

record system =
  world_of :: world
  workers :: "job option list"
  arrived :: "job list"
  completed :: "job list"

definition post_init :: "string set \<Rightarrow> system" where
  "post_init fs =
     \<lparr>world_of = \<lparr>files = fs, calls = [], printed = [], queue = []\<rparr>,
      workers = [None], arrived = [], completed = []\<rparr>"

text \<open>
  What can happen next: an update is dispatched (with the platform's answer to the
  handler's call); a waiting worker task takes the head of the queue; a worker task runs
  the job it holds to the end of the loop body. Updates may arrive between the last two.
  A step that cannot happen in the state leaves it as it is.
\<close>

datatype event = Inbound update "exn option" | Get nat | Run nat env

definition step :: "int set \<Rightarrow> event \<Rightarrow> system \<Rightarrow> system" where
  "step ALLOWED_USER_IDS ev s =
     (case ev of
        Inbound u r \<Rightarrow>
          (let w' = snd (dispatch ALLOWED_USER_IDS u r (world_of s)) in
           s\<lparr>world_of := w',
             arrived := arrived s @ drop (length (queue (world_of s))) (queue w')\<rparr>)
      | Get i \<Rightarrow>
          (if i < length (workers s) then
             (case (workers s ! i, queue (world_of s)) of
                (None, j # rest) \<Rightarrow>
                  s\<lparr>world_of := (world_of s)\<lparr>queue := rest\<rparr>,
                    workers := (workers s)[i := Some j]\<rparr>
              | _ \<Rightarrow> s)
           else s)
      | Run i env \<Rightarrow>
          (if i < length (workers s) then
             (case workers s ! i of
                None \<Rightarrow> s
              | Some j \<Rightarrow>
                  s\<lparr>world_of := snd (handle_job env j (world_of s)),
                    workers := (workers s)[i := None],
                    completed := completed s @ [j]\<rparr>)
           else s))"

definition run :: "int set \<Rightarrow> event list \<Rightarrow> system \<Rightarrow> system" where
  "run ALLOWED_USER_IDS evs s = fold (step ALLOWED_USER_IDS) evs s"

text \<open>The jobs the worker tasks hold.\<close>

definition in_progress :: "system \<Rightarrow> job list" where
  "in_progress s = concat (map (\<lambda>c. case c of None \<Rightarrow> [] | Some j \<Rightarrow> [j]) (workers s))"

text \<open>
  The calls a turn added to the log, and what the sender got from them: the transcribed
  text (by the edit of line 177 or the reply of line 180) or the error description (by
  the edit of line 189), when the platform accepted the call.
\<close>

definition new_calls :: "world \<Rightarrow> world \<Rightarrow> (site \<times> call \<times> exn option) list" where
  "new_calls w w' = drop (length (calls w)) (calls w')"

definition delivered_transcription :: "(site \<times> call \<times> exn option) list \<Rightarrow> bool" where
  "delivered_transcription cs \<longleftrightarrow>
     list_ex (\<lambda>(at, c, r). (at = ResultEdit \<or> at = ResultReply) \<and> r = None) cs"

definition delivered_error :: "(site \<times> call \<times> exn option) list \<Rightarrow> bool" where
  "delivered_error cs \<longleftrightarrow> list_ex (\<lambda>(at, c, r). at = ErrorEdit \<and> r = None) cs"

section \<open>Notions used in the proofs\<close>

definition new_printed :: "world \<Rightarrow> world \<Rightarrow> string list" where
  "new_printed w w' = drop (length (printed w)) (printed w')"

text \<open>The line the worker loop prints for an exception that reached it (line 197).\<close>

definition worker_line :: "string \<Rightarrow> bool" where
  "worker_line p \<longleftrightarrow> take 16 p = ''[Worker] Error: ''"

definition reported_by_worker :: "string list \<Rightarrow> bool" where
  "reported_by_worker ps \<longleftrightarrow> list_ex worker_line ps"

definition result_call :: "site \<times> call \<times> exn option \<Rightarrow> bool" where
  "result_call c \<longleftrightarrow> fst c = ResultEdit \<or> fst c = ResultReply"

definition progress_call :: "site \<times> call \<times> exn option \<Rightarrow> bool" where
  "progress_call c \<longleftrightarrow> fst c = ExtractingEdit \<or> fst c = TranscribingEdit"

text \<open>
  A part of the program that leaves the queue alone, makes progress edits only and prints
  no worker line.
\<close>

definition progress_only :: "world \<Rightarrow> world \<Rightarrow> bool" where
  "progress_only w w' \<longleftrightarrow>
     queue w' = queue w \<and>
     (\<exists>cs. calls w' = calls w @ cs \<and> list_all progress_call cs) \<and>
     (\<exists>ps. printed w' = printed w @ ps \<and> list_all (\<lambda>p. \<not> worker_line p) ps)"

definition keeps :: "(world \<Rightarrow> world \<Rightarrow> bool) \<Rightarrow> 'a io \<Rightarrow> bool" where
  "keeps R m \<longleftrightarrow> (\<forall>w. R w (snd (m w)))"
section \<open>Sample inputs\<close>

text \<open>
  An interpreter with the decimal digits of Unicode 14.0 (the first code point of each run
  of ten digits outside ASCII) and the default limit of 4300 digits.
\<close>

definition decimal_zeros :: "nat list" where
  "decimal_zeros =
     [0x0660, 0x06F0, 0x07C0, 0x0966, 0x09E6, 0x0A66, 0x0AE6, 0x0B66, 0x0BE6,
      0x0C66, 0x0CE6, 0x0D66, 0x0DE6, 0x0E50, 0x0ED0, 0x0F20, 0x1040, 0x1090,
      0x17E0, 0x1810, 0x1946, 0x19D0, 0x1A80, 0x1A90, 0x1B50, 0x1BB0, 0x1C40,
      0x1C50, 0xA620, 0xA8D0, 0xA900, 0xA9D0, 0xA9F0, 0xAA50, 0xABF0, 0xFF10,
      0x104A0, 0x10D30, 0x11066, 0x110F0, 0x11136, 0x111D0, 0x112F0, 0x11450,
      0x114D0, 0x11650, 0x116C0, 0x11730, 0x118E0, 0x11950, 0x11C50, 0x11D50,
      0x11DA0, 0x16A60, 0x16AC0, 0x16B50, 0x1D7CE, 0x1D7D8, 0x1D7E2, 0x1D7EC,
      0x1D7F6, 0x1E140, 0x1E2F0, 0x1E950, 0x1FBF0]"

definition cpython_3_11 :: python where
  "cpython_3_11 =
     \<lparr>todecimal = (\<lambda>ch. map_option (\<lambda>z. ch - z) (find (\<lambda>z. z \<le> ch \<and> ch \<le> z + 9) decimal_zeros)),
      max_str_digits = 4300\<rparr>"

text \<open>A string of ASCII characters as code points.\<close>

definition ascii :: "string \<Rightarrow> ustr" where
  "ascii s = map of_char s"

definition ok_env :: env where
  "ok_env =
     \<lparr>tempdir = ''/tmp'', mkdir_result = None, get_file_result = None, download_result = None,
      download_leaves_file = False, edit_extracting_result = None, ffmpeg_result = Inr 0,
      ffmpeg_writes_output = True, remove_video_result = None, edit_transcribing_result = None,
      transcribe_result = Inr ''hello world'', remove_audio_result = None,
      edit_text_result = None, reply_text_result = None, cleanup_download_result = None,
      cleanup_audio_result = None, edit_error_result = None\<rparr>"

definition video_job :: job where
  "video_job =
     \<lparr>file_id = ''DQACAg'', message_id = 42, is_video = True, file_name = Some ''video_note.mp4''\<rparr>"

definition audio_job :: job where
  "audio_job =
     \<lparr>file_id = ''AwACAg'', message_id = 43, is_video = False, file_name = Some ''voice.ogg''\<rparr>"

definition voice_update :: update where
  "voice_update =
     \<lparr>kind = NewMessage, effective_user = Some 5, msg_id = 90, msg_text = None, msg_command = None, msg_voice = Some ''AwACAg'',
      msg_video_note = None, msg_audio = None, msg_video = None, msg_document = None\<rparr>"

definition empty_world :: world where
  "empty_world = \<lparr>files = {}, calls = [], printed = [], queue = []\<rparr>"

definition text_update :: update where
  "text_update =
     \<lparr>kind = NewMessage, effective_user = Some 5, msg_id = 91, msg_text = Some ''hello'', msg_command = None, msg_voice = None,
      msg_video_note = None, msg_audio = None, msg_video = None, msg_document = None\<rparr>"


section \<open>Properties of the format classifier\<close>

lemmas ext_defs = ext_of_def lower_def lower_char_def path_suffix_def path_name_def

lemma ext_of_empty: "ext_of [] = []"
  by (simp add: ext_defs)

lemma empty_not_audio_mime: "[] \<notin> SUPPORTED_AUDIO_MIMES"
  by (simp add: SUPPORTED_AUDIO_MIMES_def)

lemma empty_not_video_extension: "[] \<notin> VIDEO_EXTENSIONS"
  by (simp add: VIDEO_EXTENSIONS_def)

text \<open>
  C1. Content-type before extension: an input whose content-type is in exactly one of the
  two content-type sets should be classified by it, whatever its file name. The code asks
  \<open>is_audio_file\<close> first, and that test falls back on the extension whenever the
  content-type is no audio type, also when it is a known video type: a document of type
  \<open>video/webm\<close> named \<open>clip.webm\<close>, and one of type \<open>video/mp4\<close> named \<open>clip.mp3\<close>,
  are classified Audio.
\<close>

theorem classify_video_mime_audio_extension:
  "''video/webm'' \<in> SUPPORTED_VIDEO_MIMES \<and> ''video/webm'' \<notin> SUPPORTED_AUDIO_MIMES \<and>
   classify (Some ''video/webm'') (Some ''clip.webm'') = Audio \<and>
   ''video/mp4'' \<in> SUPPORTED_VIDEO_MIMES \<and> ''video/mp4'' \<notin> SUPPORTED_AUDIO_MIMES \<and>
   classify (Some ''video/mp4'') (Some ''clip.mp3'') = Audio"
  by (simp add: classify_def is_audio_file_def SUPPORTED_AUDIO_MIMES_def
      SUPPORTED_VIDEO_MIMES_def AUDIO_EXTENSIONS_def ext_defs)

text \<open>
  C2, as stated, fails: \<open>.webm\<close> is a video extension and an audio extension, and the
  audio test comes first.
\<close>

theorem classify_webm_counterexample:
  "ext_of ''clip.webm'' \<in> VIDEO_EXTENSIONS \<and> classify None (Some ''clip.webm'') \<noteq> Video"
  by (simp add: classify_def is_audio_file_def VIDEO_EXTENSIONS_def AUDIO_EXTENSIONS_def
      ext_defs)

text \<open>
  C2, amended. When the content-type is absent or in neither content-type set, and the
  extension of the file name is a video extension that is not also an audio extension,
  the classifier returns Video.
\<close>

theorem classify_video_extension:
  assumes "\<forall>m. mime_type = Some m \<longrightarrow> m \<notin> SUPPORTED_AUDIO_MIMES \<and> m \<notin> SUPPORTED_VIDEO_MIMES"
    and "ext_of f \<in> VIDEO_EXTENSIONS"
    and "ext_of f \<notin> AUDIO_EXTENSIONS"
  shows "classify mime_type (Some f) = Video"
proof -
  have "f \<noteq> []"
    using assms(2) ext_of_empty empty_not_video_extension by auto
  then have name: "truthy (Some f)" by simp
  have no_audio: "\<not> (truthy mime_type \<and> the mime_type \<in> SUPPORTED_AUDIO_MIMES)"
    using assms(1) by (cases mime_type) auto
  have "\<not> is_audio_file mime_type (Some f)"
    using no_audio name assms(3) by (simp add: is_audio_file_def)
  moreover have "is_video_file mime_type (Some f)"
    using name assms(2) by (simp add: is_video_file_def)
  ultimately show ?thesis by (simp add: classify_def)
qed

theorem classify_video_extension_witness:
  "ext_of ''movie.MKV'' \<in> VIDEO_EXTENSIONS \<and> ext_of ''movie.MKV'' \<notin> AUDIO_EXTENSIONS \<and>
   ''application/octet-stream'' \<notin> SUPPORTED_AUDIO_MIMES \<and>
   ''application/octet-stream'' \<notin> SUPPORTED_VIDEO_MIMES \<and>
   classify (Some ''application/octet-stream'') (Some ''movie.MKV'') = Video"
proof -
  have h1: "\<forall>m. Some ''application/octet-stream'' = Some m \<longrightarrow>
              m \<notin> SUPPORTED_AUDIO_MIMES \<and> m \<notin> SUPPORTED_VIDEO_MIMES"
    by (simp add: SUPPORTED_AUDIO_MIMES_def SUPPORTED_VIDEO_MIMES_def)
  have h2: "ext_of ''movie.MKV'' \<in> VIDEO_EXTENSIONS"
    by (simp add: VIDEO_EXTENSIONS_def ext_defs)
  have h3: "ext_of ''movie.MKV'' \<notin> AUDIO_EXTENSIONS"
    by (simp add: AUDIO_EXTENSIONS_def ext_defs)
  show ?thesis
    using h1 h2 h3 classify_video_extension [OF h1 h2 h3] by simp
qed

text \<open>
  C3. A content-type in the audio set gives Audio, whatever the file name is, and also
  when there is none.
\<close>

theorem classify_audio_mime:
  assumes "m \<in> SUPPORTED_AUDIO_MIMES"
  shows "classify (Some m) fname = Audio"
proof -
  have "m \<noteq> []"
    using assms empty_not_audio_mime by auto
  then show ?thesis
    using assms by (simp add: classify_def is_audio_file_def)
qed

theorem classify_audio_mime_witness:
  "''audio/ogg'' \<in> SUPPORTED_AUDIO_MIMES \<and>
   classify (Some ''audio/ogg'') (Some ''clip.mp4'') = Audio \<and>
   classify (Some ''audio/ogg'') None = Audio"
proof -
  have h: "''audio/ogg'' \<in> SUPPORTED_AUDIO_MIMES"
    by (simp add: SUPPORTED_AUDIO_MIMES_def)
  show ?thesis
    using h classify_audio_mime [OF h, of "Some ''clip.mp4''"] classify_audio_mime [OF h, of None]
    by simp
qed

section \<open>Properties of the transcoder adapter\<close>


section \<open>Properties of the startup configuration\<close>

lemma user_ids_None_iff:
  "user_ids py items = None \<longleftrightarrow>
     (\<exists>uid \<in> set items. strip uid \<noteq> [] \<and> py_int py (strip uid) = None)"
  by (induction items) (auto split: option.splits)

lemma user_ids_blank:
  "(\<forall>uid \<in> set items. strip uid = []) \<Longrightarrow> user_ids py items = Some {}"
  by (induction items) auto

lemma user_ids_Some:
  assumes "\<forall>uid \<in> set items. strip uid \<noteq> [] \<longrightarrow> py_int py (strip uid) \<noteq> None"
  shows "user_ids py items =
     Some (set (map (\<lambda>uid. the (py_int py (strip uid))) (filter (\<lambda>uid. strip uid \<noteq> []) items)))"
  using assms by (induction items) auto

lemma strip_Nil: "strip [] = []"
  by (simp add: strip_def)

text \<open>
  C9. Loading the configuration, whatever the interpreter's tables: without a token (unset
  or empty) the process exits with status 1 after a diagnostic; with a token, a whitelist
  string with an item that is not blank and that \<open>int()\<close> rejects makes it exit with
  status 1 after a diagnostic; with a token, a whitelist that is unset, empty or made of
  blank items only gives the empty whitelist, a warning is printed and the module is
  loaded; with a token and a whitelist whose items are integers or blank, not all blank,
  the module is loaded with these integers and nothing is printed.
\<close>

theorem load_config_startup:
  "(\<not> truthy (getenv ''TELEGRAM_BOT_TOKEN'') \<longrightarrow>
      load_config py getenv = Exit 1 [''ERROR: TELEGRAM_BOT_TOKEN not set in .env file'']) \<and>
   (truthy (getenv ''TELEGRAM_BOT_TOKEN'') \<and> getenv ''ALLOWED_USER_IDS'' = Some s \<and>
    (\<exists>uid \<in> set (split 44 s). strip uid \<noteq> [] \<and> py_int py (strip uid) = None) \<longrightarrow>
      load_config py getenv =
        Exit 1 [''ERROR: Invalid ALLOWED_USER_IDS format. Must be comma-separated integers.'']) \<and>
   (getenv ''TELEGRAM_BOT_TOKEN'' = Some token \<and> token \<noteq> [] \<and>
    (\<forall>v. getenv ''ALLOWED_USER_IDS'' = Some v \<longrightarrow>
       (\<forall>uid \<in> set (split 44 v). strip uid = [])) \<longrightarrow>
      load_config py getenv =
        Loaded token {} [''WARNING: No user IDs in whitelist. Bot will not respond to anyone.'']) \<and>
   (getenv ''TELEGRAM_BOT_TOKEN'' = Some token \<and> token \<noteq> [] \<and>
    getenv ''ALLOWED_USER_IDS'' = Some s \<and>
    (\<forall>uid \<in> set (split 44 s). strip uid \<noteq> [] \<longrightarrow> py_int py (strip uid) \<noteq> None) \<and>
    (\<exists>uid \<in> set (split 44 s). strip uid \<noteq> []) \<longrightarrow>
      load_config py getenv =
        Loaded token
          (set (map (\<lambda>uid. the (py_int py (strip uid)))
             (filter (\<lambda>uid. strip uid \<noteq> []) (split 44 s)))) [])"
proof (intro conjI impI)
  assume "\<not> truthy (getenv ''TELEGRAM_BOT_TOKEN'')"
  then show "load_config py getenv = Exit 1 [''ERROR: TELEGRAM_BOT_TOKEN not set in .env file'']"
    by (simp add: load_config_def)
next
  assume a: "truthy (getenv ''TELEGRAM_BOT_TOKEN'') \<and> getenv ''ALLOWED_USER_IDS'' = Some s \<and>
    (\<exists>uid \<in> set (split 44 s). strip uid \<noteq> [] \<and> py_int py (strip uid) = None)"
  then have bad: "user_ids py (split 44 s) = None"
    by (simp add: user_ids_None_iff)
  have "s \<noteq> []"
    using a by (auto simp: strip_Nil)
  then show "load_config py getenv =
      Exit 1 [''ERROR: Invalid ALLOWED_USER_IDS format. Must be comma-separated integers.'']"
    using a bad by (simp add: load_config_def)
next
  assume a: "getenv ''TELEGRAM_BOT_TOKEN'' = Some token \<and> token \<noteq> [] \<and>
    (\<forall>v. getenv ''ALLOWED_USER_IDS'' = Some v \<longrightarrow>
       (\<forall>uid \<in> set (split 44 v). strip uid = []))"
  show "load_config py getenv =
      Loaded token {} [''WARNING: No user IDs in whitelist. Bot will not respond to anyone.'']"
  proof (cases "getenv ''ALLOWED_USER_IDS''")
    case None
    then show ?thesis using a by (simp add: load_config_def)
  next
    case (Some v)
    then have "user_ids py (split 44 v) = Some {}"
      using a by (simp add: user_ids_blank)
    then show ?thesis using a Some by (simp add: load_config_def)
  qed
next
  assume a: "getenv ''TELEGRAM_BOT_TOKEN'' = Some token \<and> token \<noteq> [] \<and>
    getenv ''ALLOWED_USER_IDS'' = Some s \<and>
    (\<forall>uid \<in> set (split 44 s). strip uid \<noteq> [] \<longrightarrow> py_int py (strip uid) \<noteq> None) \<and>
    (\<exists>uid \<in> set (split 44 s). strip uid \<noteq> [])"
  let ?ids = "set (map (\<lambda>uid. the (py_int py (strip uid)))
             (filter (\<lambda>uid. strip uid \<noteq> []) (split 44 s)))"
  have ids: "user_ids py (split 44 s) = Some ?ids"
    using a user_ids_Some by blast
  have ne: "?ids \<noteq> {}"
    using a by auto
  have "s \<noteq> []"
    using a by (auto simp: strip_Nil)
  then show "load_config py getenv = Loaded token ?ids []"
    using a ids ne by (simp add: load_config_def)
qed

lemmas int_defs = strip_def unicode_isspace_def py_int_def parse_nat_def is_digit_def
  py_isspace_def cpython_3_11_def decimal_zeros_def ascii_def

text \<open>
  No token; an item that is no integer; a whitelist that is one no-break space; a
  whitelist of an ASCII integer and one in Arabic-Indic digits between blanks.
\<close>

theorem load_config_startup_witness:
  "load_config cpython_3_11 Map.empty =
     Exit 1 [''ERROR: TELEGRAM_BOT_TOKEN not set in .env file''] \<and>
   load_config cpython_3_11
     [''TELEGRAM_BOT_TOKEN'' \<mapsto> ascii ''123:abc'', ''ALLOWED_USER_IDS'' \<mapsto> ascii ''11, x7''] =
     Exit 1 [''ERROR: Invalid ALLOWED_USER_IDS format. Must be comma-separated integers.''] \<and>
   load_config cpython_3_11
     [''TELEGRAM_BOT_TOKEN'' \<mapsto> ascii ''123:abc'', ''ALLOWED_USER_IDS'' \<mapsto> [0xA0]] =
     Loaded (ascii ''123:abc'') {}
       [''WARNING: No user IDs in whitelist. Bot will not respond to anyone.''] \<and>
   load_config cpython_3_11
     [''TELEGRAM_BOT_TOKEN'' \<mapsto> ascii ''123:abc'',
      ''ALLOWED_USER_IDS'' \<mapsto> [0x37, 0x2C, 0x2C, 0xA0, 0x661, 0x662, 0x20]] =
     Loaded (ascii ''123:abc'') {7, 12} []"
proof -
  have a: "load_config cpython_3_11 Map.empty =
      Exit 1 [''ERROR: TELEGRAM_BOT_TOKEN not set in .env file'']"
    using load_config_startup [of Map.empty cpython_3_11] by simp
  have b: "load_config cpython_3_11
     [''TELEGRAM_BOT_TOKEN'' \<mapsto> ascii ''123:abc'', ''ALLOWED_USER_IDS'' \<mapsto> ascii ''11, x7''] =
     Exit 1 [''ERROR: Invalid ALLOWED_USER_IDS format. Must be comma-separated integers.'']"
    using load_config_startup
      [of "[''TELEGRAM_BOT_TOKEN'' \<mapsto> ascii ''123:abc'', ''ALLOWED_USER_IDS'' \<mapsto> ascii ''11, x7'']"
          cpython_3_11 "ascii ''11, x7''"]
    by (simp add: int_defs)
  have c: "load_config cpython_3_11
     [''TELEGRAM_BOT_TOKEN'' \<mapsto> ascii ''123:abc'', ''ALLOWED_USER_IDS'' \<mapsto> [0xA0]] =
     Loaded (ascii ''123:abc'') {}
       [''WARNING: No user IDs in whitelist. Bot will not respond to anyone.'']"
    using load_config_startup
      [of "[''TELEGRAM_BOT_TOKEN'' \<mapsto> ascii ''123:abc'', ''ALLOWED_USER_IDS'' \<mapsto> [0xA0]]"
          cpython_3_11 _ "ascii ''123:abc''"]
    by (simp add: int_defs)
  have d: "load_config cpython_3_11
     [''TELEGRAM_BOT_TOKEN'' \<mapsto> ascii ''123:abc'',
      ''ALLOWED_USER_IDS'' \<mapsto> [0x37, 0x2C, 0x2C, 0xA0, 0x661, 0x662, 0x20]] =
     Loaded (ascii ''123:abc'') {7, 12} []"
    using load_config_startup
      [of "[''TELEGRAM_BOT_TOKEN'' \<mapsto> ascii ''123:abc'',
            ''ALLOWED_USER_IDS'' \<mapsto> [0x37, 0x2C, 0x2C, 0xA0, 0x661, 0x662, 0x20]]"
          cpython_3_11 "[0x37, 0x2C, 0x2C, 0xA0, 0x661, 0x662, 0x20]" "ascii ''123:abc''"]
    by (simp add: int_defs)
  from a b c d show ?thesis by simp
qed

section \<open>Properties of the handlers\<close>

lemmas handler_defs = handle_media_def handle_text_message_def effective_user_id_def
  update_message_def is_user_allowed_def reply_text_def of_result_def io_bind_def
  io_return_def io_raise_def queue_put_def




text \<open>
  C10. A plain text message (no attachment, no command) from a sender who is not in the
  whitelist goes to \<open>handle_text_message\<close>, which returns at once: no call is made and
  the world is unchanged, be the message new or edited; while \<open>handle_media\<close> answers a
  new message of the same sender with the denial.
\<close>

theorem text_message_ignored:
  assumes "effective_user u = Some uid" and "uid \<notin> ALLOWED_USER_IDS"
    and "msg_text u = Some t" and "t \<noteq> []" and "msg_command u = None"
    and "msg_voice u = None" and "msg_video_note u = None" and "msg_audio u = None"
    and "msg_video u = None" and "msg_document u = None"
  shows "dispatch ALLOWED_USER_IDS u r w = handle_text_message ALLOWED_USER_IDS u r w \<and>
         handle_text_message ALLOWED_USER_IDS u r w = (Inr (), w) \<and>
         (kind u = NewMessage \<longrightarrow>
            calls (snd (handle_media ALLOWED_USER_IDS u r w)) \<noteq> calls w)"
  using assms
  by (cases r) (simp_all add: dispatch_def handler_defs)

theorem text_message_ignored_witness:
  "effective_user text_update = Some 5 \<and> 5 \<notin> {7, 8 :: int} \<and>
   dispatch {7, 8} text_update None empty_world = (Inr (), empty_world) \<and>
   calls (snd (handle_media {7, 8} text_update None empty_world)) \<noteq> calls empty_world"
proof -
  have h1: "effective_user text_update = Some 5"
    by (simp add: text_update_def)
  have h2: "5 \<notin> {7, 8 :: int}"
    by simp
  show ?thesis
    using h1 h2 text_message_ignored [OF h1 h2, of "''hello''" None empty_world]
    by (simp add: text_update_def)
qed

section \<open>Properties of the worker\<close>

subsection \<open>A relation kept along a computation\<close>

lemma progress_only_refl: "progress_only w w"
  by (simp add: progress_only_def)

lemma progress_only_trans:
  assumes "progress_only a b" and "progress_only b c"
  shows "progress_only a c"
proof -
  obtain cs ps where ab: "queue b = queue a" "calls b = calls a @ cs" "list_all progress_call cs"
      "printed b = printed a @ ps" "list_all (\<lambda>p. \<not> worker_line p) ps"
    using assms(1) by (auto simp: progress_only_def)
  obtain cs' ps' where bc: "queue c = queue b" "calls c = calls b @ cs'"
      "list_all progress_call cs'" "printed c = printed b @ ps'"
      "list_all (\<lambda>p. \<not> worker_line p) ps'"
    using assms(2) by (auto simp: progress_only_def)
  have "calls c = calls a @ (cs @ cs')" "list_all progress_call (cs @ cs')"
    "printed c = printed a @ (ps @ ps')" "list_all (\<lambda>p. \<not> worker_line p) (ps @ ps')"
    using ab bc by simp_all
  then show ?thesis
    unfolding progress_only_def using ab(1) bc(1) by metis
qed

lemma keeps_return: "keeps progress_only (io_return x)"
  by (simp add: keeps_def io_return_def progress_only_refl)

lemma keeps_raise: "keeps progress_only (io_raise e)"
  by (simp add: keeps_def io_raise_def progress_only_refl)

lemma keeps_bind:
  assumes "keeps progress_only m" and "\<And>x. keeps progress_only (f x)"
  shows "keeps progress_only (io_bind m f)"
  unfolding keeps_def
proof
  fix w
  obtain r w1 where m: "m w = (r, w1)" by (cases "m w")
  have 1: "progress_only w w1" using assms(1) m by (auto simp: keeps_def dest: spec [of _ w])
  show "progress_only w (snd (io_bind m f w))"
  proof (cases r)
    case (Inl e)
    then show ?thesis using m 1 by (simp add: io_bind_def)
  next
    case (Inr x)
    have "progress_only w1 (snd (f x w1))" using assms(2) by (simp add: keeps_def)
    then show ?thesis using m 1 Inr by (auto simp: io_bind_def intro: progress_only_trans)
  qed
qed

lemma keeps_try_except:
  assumes "keeps progress_only m" and "\<And>e. keeps progress_only (h e)"
  shows "keeps progress_only (try_except m h)"
  unfolding keeps_def
proof
  fix w
  obtain r w1 where m: "m w = (r, w1)" by (cases "m w")
  have 1: "progress_only w w1" using assms(1) m by (auto simp: keeps_def dest: spec [of _ w])
  show "progress_only w (snd (try_except m h w))"
  proof (cases r)
    case (Inl e)
    have "progress_only w1 (snd (h e w1))" using assms(2) by (simp add: keeps_def)
    then show ?thesis using m 1 Inl by (auto simp: try_except_def intro: progress_only_trans)
  next
    case (Inr x)
    then show ?thesis using m 1 by (simp add: try_except_def)
  qed
qed

lemma keeps_try_except_BadRequest:
  assumes "keeps progress_only m" and "keeps progress_only h"
  shows "keeps progress_only (try_except_BadRequest m h)"
  unfolding keeps_def
proof
  fix w
  obtain r w1 where m: "m w = (r, w1)" by (cases "m w")
  have 1: "progress_only w w1" using assms(1) m by (auto simp: keeps_def dest: spec [of _ w])
  have 2: "progress_only w1 (snd (h w1))" using assms(2) by (simp add: keeps_def)
  show "progress_only w (snd (try_except_BadRequest m h w))"
  proof (cases r)
    case (Inl e)
    then show ?thesis
      using m 1 2 by (cases e) (auto simp: try_except_BadRequest_def intro: progress_only_trans)
  next
    case (Inr x)
    then show ?thesis using m 1 by (simp add: try_except_BadRequest_def)
  qed
qed

lemma keeps_if:
  assumes "b \<Longrightarrow> keeps progress_only m" and "\<not> b \<Longrightarrow> keeps progress_only n"
  shows "keeps progress_only (if b then m else n)"
  using assms by simp

lemma keeps_of_result: "keeps progress_only (of_result r)"
  by (cases r) (simp_all add: of_result_def keeps_return keeps_raise)

lemma keeps_download: "keeps progress_only (download_to_drive p r leaves)"
  by (cases r) (simp_all add: keeps_def download_to_drive_def progress_only_def)

lemma keeps_subprocess_run: "keeps progress_only (subprocess_run out r writes)"
  by (cases r) (simp_all add: keeps_def subprocess_run_def progress_only_def)

lemma keeps_os_remove: "keeps progress_only (os_remove p r)"
  by (cases r) (simp_all add: keeps_def os_remove_def progress_only_def)

lemma keeps_path_exists: "keeps progress_only (path_exists p)"
  by (simp add: keeps_def path_exists_def progress_only_def)

lemma keeps_transcribe: "keeps progress_only (transcribe p r)"
  by (simp add: keeps_def transcribe_def progress_only_def)

lemma keeps_edit_progress:
  assumes "at = ExtractingEdit \<or> at = TranscribingEdit"
  shows "keeps progress_only (edit_text at mid text r)"
  using assms
  by (cases r)
    (auto simp: keeps_def edit_text_def of_result_def io_return_def io_raise_def
      progress_only_def progress_call_def)

lemma keeps_print_extract:
  "keeps progress_only (py_print (''[Error] Failed to extract audio: '' @ m))"
  by (simp add: keeps_def py_print_def progress_only_def worker_line_def)

lemma keeps_extract: "keeps progress_only (extract_audio_from_video v out r writes)"
  unfolding extract_audio_from_video_def
  by (intro keeps_try_except keeps_bind keeps_subprocess_run keeps_return keeps_print_extract)

lemma keeps_prepare: "keeps progress_only (prepare env j)"
  unfolding prepare_def
  by (intro keeps_bind keeps_if keeps_try_except_BadRequest keeps_of_result keeps_download
      keeps_extract keeps_os_remove keeps_path_exists keeps_transcribe keeps_return keeps_raise
      keeps_edit_progress) simp_all

lemma prepare_progress_only: "prepare env j w = (r, w1) \<Longrightarrow> progress_only w w1"
  using keeps_prepare [of env j] by (auto simp: keeps_def dest: spec [of _ w])

subsection \<open>Delivery and the error handler\<close>

lemma deliver_calls:
  "calls (snd (deliver env j t w)) =
     calls w @ (ResultEdit, EditStatus (message_id j) t, edit_text_result env) #
       (case edit_text_result env of
          Some (BadRequest m) \<Rightarrow> [(ResultReply, ReplyText (message_id j) t, reply_text_result env)]
        | _ \<Rightarrow> [])"
  by (simp add: deliver_def try_except_BadRequest_def edit_text_def reply_text_def of_result_def
      io_return_def io_raise_def split: option.splits exn.splits)

lemma deliver_shape:
  "\<exists>cs. calls (snd (deliver env j t w)) = calls w @ cs \<and>
        list_all (\<lambda>c. fst c = ResultEdit \<or> fst c = ResultReply) cs \<and>
        (delivered_transcription cs \<longleftrightarrow> fst (deliver env j t w) = Inr ())"
  by (simp add: deliver_def try_except_BadRequest_def edit_text_def reply_text_def of_result_def
      io_return_def io_raise_def delivered_transcription_def split: option.splits exn.splits)

lemma deliver_rest:
  "queue (snd (deliver env j t w)) = queue w \<and> printed (snd (deliver env j t w)) = printed w \<and>
   files (snd (deliver env j t w)) = files w"
  by (simp add: deliver_def try_except_BadRequest_def edit_text_def reply_text_def of_result_def
      io_return_def io_raise_def split: option.splits exn.splits)

lemmas on_error_defs = on_error_def io_bind_def io_return_def io_raise_def path_exists_def
  os_remove_def edit_text_def of_result_def

lemma on_error_shape:
  "\<exists>cs. calls (snd (on_error env j e w)) = calls w @ cs \<and>
        list_all (\<lambda>c. fst c = ErrorEdit) cs \<and>
        (delivered_error cs \<longleftrightarrow> fst (on_error env j e w) = Inr ())"
  by (simp add: on_error_defs delivered_error_def split: option.splits)

lemma on_error_rest:
  "queue (snd (on_error env j e w)) = queue w \<and> printed (snd (on_error env j e w)) = printed w"
  by (simp add: on_error_defs split: option.splits)

lemma on_error_clean:
  assumes "cleanup_download_result env = None" and "cleanup_audio_result env = None"
  shows "files (snd (on_error env j e w)) = files w - {download_path env j, audio_path env j}"
    and "calls (snd (on_error env j e w)) =
           calls w @ [(ErrorEdit, EditStatus (message_id j) (ERROR_PREFIX @ str_exn e),
                       edit_error_result env)]"
    and "(fst (on_error env j e w) = Inr ()) = (edit_error_result env = None)"
  using assms
  by (auto simp: on_error_defs audio_path_def split: option.splits)

lemma process_job_failed:
  assumes "prepare env j w = (Inl e, w1)"
  shows "process_job env j w = on_error env j e w1"
  using assms
  by (simp add: process_job_def try_finally_def task_done_def try_except_def io_bind_def
      io_return_def split: prod.splits sum.splits)

lemma process_job_prepared:
  assumes "prepare env j w = (Inr t, w1)"
  shows "process_job env j w =
     (case deliver env j t w1 of
        (Inl e, w2) \<Rightarrow> on_error env j e w2
      | (Inr u, w2) \<Rightarrow> (Inr u, w2))"
  using assms
  by (simp add: process_job_def try_finally_def task_done_def try_except_def io_bind_def
      io_return_def split: prod.splits sum.splits)

lemmas run_defs = prepare_def deliver_def on_error_def process_job_def handle_job_def
  io_bind_def io_return_def io_raise_def try_except_def try_except_BadRequest_def
  try_finally_def task_done_def of_result_def py_print_def edit_text_def reply_text_def
  path_exists_def os_remove_def download_to_drive_def subprocess_run_def transcribe_def
  extract_audio_from_video_def download_path_def audio_path_def temp_dir_def file_ext_def
  str_int_def str_nat.simps path_suffix_def path_name_def

lemmas sample_defs = ok_env_def video_job_def audio_job_def empty_world_def

subsection \<open>Failure before delivery\<close>




subsection \<open>Delivery of the text\<close>

lemma io_bind_InrE:
  assumes "io_bind m f w = (Inr y, w')"
  obtains x w1 where "m w = (Inr x, w1)" and "f x w1 = (Inr y, w')"
  using assms by (auto simp: io_bind_def split: prod.splits sum.splits)

text \<open>The text \<open>prepare\<close> returns is the one \<open>transcribe\<close> returned.\<close>

lemma prepare_text:
  assumes "prepare env j w = (Inr t, w1)"
  shows "transcribe_result env = Inr t"
  using assms
  by (auto simp: prepare_def transcribe_def io_return_def elim!: io_bind_InrE)

lemma process_job_failed_calls:
  assumes "prepare env j w = (Inl e, w1)"
  shows "\<not> list_ex result_call (new_calls w (snd (process_job env j w)))"
proof -
  obtain cs1 where cs1: "calls w1 = calls w @ cs1" "list_all progress_call cs1"
    using prepare_progress_only [OF assms] by (auto simp: progress_only_def)
  obtain cs3 where cs3: "calls (snd (on_error env j e w1)) = calls w1 @ cs3"
      "list_all (\<lambda>c. fst c = ErrorEdit) cs3"
    using on_error_shape [of env j e w1] by auto
  have "new_calls w (snd (process_job env j w)) = cs1 @ cs3"
    using process_job_failed [OF assms] cs1(1) cs3(1) by (simp add: new_calls_def)
  moreover have "\<not> list_ex result_call cs1"
    using cs1(2) by (induction cs1) (auto simp: result_call_def progress_call_def)
  moreover have "\<not> list_ex result_call cs3"
    using cs3(2) by (induction cs3) (auto simp: result_call_def)
  ultimately show ?thesis by simp
qed

text \<open>
  C6, as stated, fails: the transcription of this audio job succeeds, the removal of the
  audio file then fails, and the worker never tries to edit the status message to the
  text; its only call is the edit to the error.
\<close>

theorem edit_skipped_counterexample:
  "transcribe_result (ok_env\<lparr>remove_audio_result := Some (OtherException ''Permission denied'')\<rparr>) =
     Inr ''hello world'' \<and>
   calls (snd (process_job
      (ok_env\<lparr>remove_audio_result := Some (OtherException ''Permission denied'')\<rparr>)
      audio_job empty_world)) =
     [(ErrorEdit, EditStatus 43 (ERROR_PREFIX @ ''Permission denied''), None)]"
  by (simp add: run_defs sample_defs)

text \<open>
  C6, amended. When the job gets through the download, the extraction, the transcription
  and the removal of the audio file, with the text \<open>t\<close>: \<open>t\<close> is the text the
  transcription returned; the calls made until then are progress edits; the next call is
  the edit of the status message to \<open>t\<close>; the reply with \<open>t\<close> follows it exactly when
  the platform answered the edit with a bad request; and whatever call comes after is the
  edit to an error. When one of those steps raises, as the removal of the audio file
  after a transcription that succeeded, the worker attempts neither the edit to the text
  nor the reply.
\<close>

theorem edit_before_reply:
  "(prepare env j w = (Inr t, w1) \<longrightarrow>
      transcribe_result env = Inr t \<and>
      list_all progress_call (new_calls w w1) \<and>
      (\<exists>rest. calls (snd (process_job env j w)) =
         calls w @ new_calls w w1 @
         (ResultEdit, EditStatus (message_id j) t, edit_text_result env) #
         (case edit_text_result env of
            Some (BadRequest m) \<Rightarrow>
              [(ResultReply, ReplyText (message_id j) t, reply_text_result env)]
          | _ \<Rightarrow> []) @ rest \<and>
         list_all (\<lambda>c. fst c = ErrorEdit) rest)) \<and>
   (prepare env j w = (Inl e, w_failed) \<longrightarrow>
      \<not> list_ex result_call (new_calls w (snd (process_job env j w))))"
proof (intro conjI impI)
  assume p: "prepare env j w = (Inr t, w1)"
  show "transcribe_result env = Inr t"
    using prepare_text [OF p] .
  obtain cs where cs: "calls w1 = calls w @ cs" "list_all progress_call cs"
    using prepare_progress_only [OF p] by (auto simp: progress_only_def)
  then have new: "new_calls w w1 = cs"
    by (simp add: new_calls_def)
  show "list_all progress_call (new_calls w w1)"
    using new cs(2) by simp
  obtain rd w2 where d: "deliver env j t w1 = (rd, w2)"
    by (cases "deliver env j t w1")
  have w2: "calls w2 =
      calls w1 @ (ResultEdit, EditStatus (message_id j) t, edit_text_result env) #
        (case edit_text_result env of
           Some (BadRequest m) \<Rightarrow>
             [(ResultReply, ReplyText (message_id j) t, reply_text_result env)]
         | _ \<Rightarrow> [])"
    using deliver_calls [of env j t w1] d by simp
  have "\<exists>rest. calls (snd (process_job env j w)) = calls w2 @ rest \<and>
      list_all (\<lambda>c. fst c = ErrorEdit) rest"
  proof (cases rd)
    case (Inl e)
    then have "process_job env j w = on_error env j e w2"
      using process_job_prepared [OF p] d by simp
    then show ?thesis
      using on_error_shape [of env j e w2] by auto
  next
    case (Inr u)
    then have "process_job env j w = (Inr u, w2)"
      using process_job_prepared [OF p] d by simp
    then show ?thesis by simp
  qed
  then show "\<exists>rest. calls (snd (process_job env j w)) =
         calls w @ new_calls w w1 @
         (ResultEdit, EditStatus (message_id j) t, edit_text_result env) #
         (case edit_text_result env of
            Some (BadRequest m) \<Rightarrow>
              [(ResultReply, ReplyText (message_id j) t, reply_text_result env)]
          | _ \<Rightarrow> []) @ rest \<and>
         list_all (\<lambda>c. fst c = ErrorEdit) rest"
    using cs new w2 by auto
next
  assume "prepare env j w = (Inl e, w_failed)"
  then show "\<not> list_ex result_call (new_calls w (snd (process_job env j w)))"
    by (rule process_job_failed_calls)
qed

text \<open>
  An audio job whose edit is answered with a bad request: the edit, then the reply, with
  the text of the transcription. An audio job whose audio file cannot be removed: no call
  with the text.
\<close>

theorem edit_before_reply_witness:
  "prepare (ok_env\<lparr>edit_text_result := Some (BadRequest ''Message is not modified'')\<rparr>)
     audio_job empty_world = (Inr ''hello world'', empty_world) \<and>
   transcribe_result (ok_env\<lparr>edit_text_result := Some (BadRequest ''Message is not modified'')\<rparr>) =
     Inr ''hello world'' \<and>
   (\<exists>rest. calls (snd (process_job
       (ok_env\<lparr>edit_text_result := Some (BadRequest ''Message is not modified'')\<rparr>)
       audio_job empty_world)) =
     (ResultEdit, EditStatus 43 ''hello world'', Some (BadRequest ''Message is not modified'')) #
     (ResultReply, ReplyText 43 ''hello world'', None) # rest) \<and>
   prepare (ok_env\<lparr>remove_audio_result := Some (OtherException ''Permission denied'')\<rparr>)
     audio_job empty_world =
     (Inl (OtherException ''Permission denied''),
      \<lparr>files = {''/tmp/pink-telegram-transcriber/43.ogg''}, calls = [], printed = [],
       queue = []\<rparr>) \<and>
   \<not> list_ex result_call (new_calls empty_world (snd (process_job
       (ok_env\<lparr>remove_audio_result := Some (OtherException ''Permission denied'')\<rparr>)
       audio_job empty_world)))"
proof -
  have h: "prepare (ok_env\<lparr>edit_text_result := Some (BadRequest ''Message is not modified'')\<rparr>)
     audio_job empty_world = (Inr ''hello world'', empty_world)"
    by (simp add: run_defs sample_defs)
  have a: "transcribe_result
       (ok_env\<lparr>edit_text_result := Some (BadRequest ''Message is not modified'')\<rparr>) =
     Inr ''hello world'' \<and>
   (\<exists>rest. calls (snd (process_job
       (ok_env\<lparr>edit_text_result := Some (BadRequest ''Message is not modified'')\<rparr>)
       audio_job empty_world)) =
     (ResultEdit, EditStatus 43 ''hello world'', Some (BadRequest ''Message is not modified'')) #
     (ResultReply, ReplyText 43 ''hello world'', None) # rest)"
    using h edit_before_reply
      [of "ok_env\<lparr>edit_text_result := Some (BadRequest ''Message is not modified'')\<rparr>"
          audio_job empty_world "''hello world''" empty_world]
    by (auto simp: sample_defs new_calls_def)
  have g: "prepare (ok_env\<lparr>remove_audio_result := Some (OtherException ''Permission denied'')\<rparr>)
     audio_job empty_world =
     (Inl (OtherException ''Permission denied''),
      \<lparr>files = {''/tmp/pink-telegram-transcriber/43.ogg''}, calls = [], printed = [],
       queue = []\<rparr>)"
    by (simp add: run_defs sample_defs)
  have b: "\<not> list_ex result_call (new_calls empty_world (snd (process_job
       (ok_env\<lparr>remove_audio_result := Some (OtherException ''Permission denied'')\<rparr>)
       audio_job empty_world)))"
    using g edit_before_reply
      [of "ok_env\<lparr>remove_audio_result := Some (OtherException ''Permission denied'')\<rparr>"
          audio_job empty_world _ _ "OtherException ''Permission denied''"
          "\<lparr>files = {''/tmp/pink-telegram-transcriber/43.ogg''}, calls = [], printed = [],
            queue = []\<rparr>"]
    by simp
  from h a g b show ?thesis by simp
qed

subsection \<open>What a job ends with\<close>

lemma delivered_transcription_append:
  "delivered_transcription (a @ b) \<longleftrightarrow> delivered_transcription a \<or> delivered_transcription b"
  by (simp add: delivered_transcription_def)

lemma delivered_error_append:
  "delivered_error (a @ b) \<longleftrightarrow> delivered_error a \<or> delivered_error b"
  by (simp add: delivered_error_def)

lemma progress_not_delivered:
  assumes "list_all progress_call cs"
  shows "\<not> delivered_transcription cs" and "\<not> delivered_error cs"
  using assms
  by (induction cs)
    (auto simp: delivered_transcription_def delivered_error_def progress_call_def)

lemma result_not_error:
  assumes "list_all (\<lambda>c. fst c = ResultEdit \<or> fst c = ResultReply) cs"
  shows "\<not> delivered_error cs"
  using assms by (induction cs) (auto simp: delivered_error_def)

lemma error_not_result:
  assumes "list_all (\<lambda>c. fst c = ErrorEdit) cs"
  shows "\<not> delivered_transcription cs"
  using assms by (induction cs) (auto simp: delivered_transcription_def)

text \<open>
  The inner statement: it ends without an exception exactly when the text or the error
  description was delivered, and never delivers both.
\<close>

lemma process_job_outcome:
  "\<exists>cs ps. calls (snd (process_job env j w)) = calls w @ cs \<and>
     printed (snd (process_job env j w)) = printed w @ ps \<and>
     list_all (\<lambda>p. \<not> worker_line p) ps \<and>
     queue (snd (process_job env j w)) = queue w \<and>
     \<not> (delivered_transcription cs \<and> delivered_error cs) \<and>
     (delivered_transcription cs \<or> delivered_error cs \<longleftrightarrow>
        fst (process_job env j w) = Inr ())"
proof -
  obtain rp w1 where p: "prepare env j w = (rp, w1)"
    by (cases "prepare env j w")
  obtain cs1 ps where w1: "queue w1 = queue w" "calls w1 = calls w @ cs1"
      "list_all progress_call cs1" "printed w1 = printed w @ ps"
      "list_all (\<lambda>p. \<not> worker_line p) ps"
    using prepare_progress_only [OF p] by (auto simp: progress_only_def)
  note quiet = progress_not_delivered [OF w1(3)]
  show ?thesis
  proof (cases rp)
    case (Inl e)
    then have pj: "process_job env j w = on_error env j e w1"
      using p process_job_failed by simp
    obtain cs3 where cs3: "calls (snd (on_error env j e w1)) = calls w1 @ cs3"
        "list_all (\<lambda>c. fst c = ErrorEdit) cs3"
        "delivered_error cs3 \<longleftrightarrow> fst (on_error env j e w1) = Inr ()"
      using on_error_shape [of env j e w1] by auto
    have "calls (snd (process_job env j w)) = calls w @ (cs1 @ cs3)"
      using pj cs3(1) w1(2) by simp
    moreover have "printed (snd (process_job env j w)) = printed w @ ps"
      using pj on_error_rest [of env j e w1] w1(4) by simp
    moreover have "queue (snd (process_job env j w)) = queue w"
      using pj on_error_rest [of env j e w1] w1(1) by simp
    moreover have "\<not> delivered_transcription (cs1 @ cs3)"
      using quiet(1) error_not_result [OF cs3(2)] by (simp add: delivered_transcription_append)
    moreover have "delivered_error (cs1 @ cs3) \<longleftrightarrow> fst (process_job env j w) = Inr ()"
      using quiet(2) cs3(3) pj by (simp add: delivered_error_append)
    ultimately show ?thesis
      using w1(5) by blast
  next
    case (Inr t)
    note pj = process_job_prepared [OF p [unfolded Inr]]
    obtain rd w2 where d: "deliver env j t w1 = (rd, w2)"
      by (cases "deliver env j t w1")
    obtain cs2 where cs2: "calls w2 = calls w1 @ cs2"
        "list_all (\<lambda>c. fst c = ResultEdit \<or> fst c = ResultReply) cs2"
        "delivered_transcription cs2 \<longleftrightarrow> rd = Inr ()"
      using deliver_shape [of env j t w1] d by auto
    have rest2: "queue w2 = queue w" "printed w2 = printed w @ ps"
      using deliver_rest [of env j t w1] d w1(1,4) by simp_all
    note no_err2 = result_not_error [OF cs2(2)]
    show ?thesis
    proof (cases rd)
      case (Inl e)
      then have pj': "process_job env j w = on_error env j e w2"
        using pj d by simp
      obtain cs3 where cs3: "calls (snd (on_error env j e w2)) = calls w2 @ cs3"
          "list_all (\<lambda>c. fst c = ErrorEdit) cs3"
          "delivered_error cs3 \<longleftrightarrow> fst (on_error env j e w2) = Inr ()"
        using on_error_shape [of env j e w2] by auto
      have "calls (snd (process_job env j w)) = calls w @ (cs1 @ cs2 @ cs3)"
        using pj' cs3(1) cs2(1) w1(2) by simp
      moreover have "printed (snd (process_job env j w)) = printed w @ ps"
        using pj' on_error_rest [of env j e w2] rest2 by simp
      moreover have "queue (snd (process_job env j w)) = queue w"
        using pj' on_error_rest [of env j e w2] rest2 by simp
      moreover have "\<not> delivered_transcription (cs1 @ cs2 @ cs3)"
        using quiet(1) cs2(3) Inl error_not_result [OF cs3(2)]
        by (simp add: delivered_transcription_append)
      moreover have "delivered_error (cs1 @ cs2 @ cs3) \<longleftrightarrow> fst (process_job env j w) = Inr ()"
        using quiet(2) no_err2 cs3(3) pj' by (simp add: delivered_error_append)
      ultimately show ?thesis
        using w1(5) by blast
    next
      case (Inr u)
      then have pj': "process_job env j w = (Inr (), w2)"
        using pj d by simp
      have "calls (snd (process_job env j w)) = calls w @ (cs1 @ cs2)"
        using pj' cs2(1) w1(2) by simp
      moreover have "printed (snd (process_job env j w)) = printed w @ ps"
        using pj' rest2 by simp
      moreover have "queue (snd (process_job env j w)) = queue w"
        using pj' rest2 by simp
      moreover have "delivered_transcription (cs1 @ cs2)"
        using cs2(3) Inr by (simp add: delivered_transcription_append)
      moreover have "\<not> delivered_error (cs1 @ cs2)"
        using quiet(2) no_err2 by (simp add: delivered_error_append)
      moreover have "fst (process_job env j w) = Inr ()"
        using pj' by simp
      ultimately show ?thesis
        using w1(5) by blast
    qed
  qed
qed

text \<open>
  One turn of the loop on a job: no exception leaves it, the queue is not touched, and
  the worker line is printed exactly when neither the text nor the error description was
  delivered.
\<close>

lemma handle_job_outcome:
  "fst (handle_job env j w) = Inr () \<and>
   queue (snd (handle_job env j w)) = queue w \<and>
   (\<exists>cs ps. calls (snd (handle_job env j w)) = calls w @ cs \<and>
      printed (snd (handle_job env j w)) = printed w @ ps \<and>
      \<not> (delivered_transcription cs \<and> delivered_error cs) \<and>
      (delivered_transcription cs \<or> delivered_error cs \<longleftrightarrow> \<not> reported_by_worker ps))"
proof (cases "mkdir_result env")
  case (Some e)
  then have "handle_job env j w =
      (Inr (), w\<lparr>printed := printed w @ [''[Worker] Error: '' @ str_exn e]\<rparr>)"
    by (simp add: handle_job_def try_except_def io_bind_def of_result_def io_raise_def
        py_print_def)
  moreover have "reported_by_worker [''[Worker] Error: '' @ str_exn e]"
    by (simp add: reported_by_worker_def worker_line_def)
  moreover have "\<not> delivered_transcription []" "\<not> delivered_error []"
    by (simp_all add: delivered_transcription_def delivered_error_def)
  ultimately show ?thesis
    by (intro conjI exI [of _ "[]"] exI [of _ "[''[Worker] Error: '' @ str_exn e]"]) simp_all
next
  case None
  obtain r w' where pj: "process_job env j w = (r, w')"
    by (cases "process_job env j w")
  obtain cs ps where o: "calls w' = calls w @ cs" "printed w' = printed w @ ps"
      "list_all (\<lambda>p. \<not> worker_line p) ps" "queue w' = queue w"
      "\<not> (delivered_transcription cs \<and> delivered_error cs)"
      "delivered_transcription cs \<or> delivered_error cs \<longleftrightarrow> r = Inr ()"
    using process_job_outcome [of env j w] pj by auto
  have quiet: "\<not> reported_by_worker ps"
    using o(3) by (induction ps) (auto simp: reported_by_worker_def)
  show ?thesis
  proof (cases r)
    case (Inr u)
    then have "handle_job env j w = (Inr (), w')"
      using None pj
      by (simp add: handle_job_def try_except_def io_bind_def of_result_def io_return_def)
    then show ?thesis
      using o quiet Inr by auto
  next
    case (Inl e)
    then have hj: "handle_job env j w =
        (Inr (), w'\<lparr>printed := printed w' @ [''[Worker] Error: '' @ str_exn e]\<rparr>)"
      using None pj
      by (simp add: handle_job_def try_except_def io_bind_def of_result_def io_return_def
          py_print_def)
    have rep: "reported_by_worker (ps @ [''[Worker] Error: '' @ str_exn e])"
      by (simp add: reported_by_worker_def worker_line_def)
    have none: "\<not> delivered_transcription cs" "\<not> delivered_error cs"
      using o(6) Inl by auto
    show ?thesis
      using hj o(1,2,4) none rep
      by (intro conjI exI [of _ cs] exI [of _ "ps @ [''[Worker] Error: '' @ str_exn e]"])
        simp_all
  qed
qed

text \<open>
  When the directory can be made, the removals of the handler go through and the platform
  accepts the edit to the error, the inner statement ends without an exception.
\<close>

lemma process_job_delivers:
  assumes "cleanup_download_result env = None" and "cleanup_audio_result env = None"
    and "edit_error_result env = None"
  shows "fst (process_job env j w) = Inr ()"
proof -
  note handled = on_error_clean(3) [OF assms(1,2)]
  obtain rp w1 where p: "prepare env j w = (rp, w1)"
    by (cases "prepare env j w")
  show ?thesis
  proof (cases rp)
    case (Inl e)
    then show ?thesis
      using process_job_failed [of env j w e w1] p handled [of j e w1] assms(3) by simp
  next
    case (Inr t)
    obtain rd w2 where d: "deliver env j t w1 = (rd, w2)"
      by (cases "deliver env j t w1")
    show ?thesis
    proof (cases rd)
      case (Inl e)
      then show ?thesis
        using process_job_prepared [of env j w t w1] p Inr d handled [of j e w2] assms(3)
        by simp
    next
      case (Inr u)
      then show ?thesis
        using process_job_prepared [of env j w t w1] p \<open>rp = Inr t\<close> d by simp
    qed
  qed
qed

lemma handle_job_delivers:
  assumes "mkdir_result env = None" and "cleanup_download_result env = None"
    and "cleanup_audio_result env = None" and "edit_error_result env = None"
  shows "\<not> reported_by_worker (new_printed w (snd (handle_job env j w)))"
    and "delivered_transcription (new_calls w (snd (handle_job env j w))) \<or>
         delivered_error (new_calls w (snd (handle_job env j w)))"
proof -
  obtain r w' where pj: "process_job env j w = (r, w')"
    by (cases "process_job env j w")
  have r: "r = Inr ()"
    using process_job_delivers [OF assms(2-4), of j w] pj by simp
  then have hj: "handle_job env j w = (Inr (), w')"
    using assms(1) pj
    by (simp add: handle_job_def try_except_def io_bind_def of_result_def io_return_def)
  obtain cs ps where o: "calls w' = calls w @ cs" "printed w' = printed w @ ps"
      "list_all (\<lambda>p. \<not> worker_line p) ps"
      "delivered_transcription cs \<or> delivered_error cs \<longleftrightarrow> r = Inr ()"
    using process_job_outcome [of env j w] pj by auto
  have quiet: "\<not> reported_by_worker ps"
    using o(3) by (induction ps) (auto simp: reported_by_worker_def)
  show "\<not> reported_by_worker (new_printed w (snd (handle_job env j w)))"
    using hj o(2) quiet by (simp add: new_printed_def)
  show "delivered_transcription (new_calls w (snd (handle_job env j w))) \<or>
        delivered_error (new_calls w (snd (handle_job env j w)))"
    using hj o(1,4) r by (simp add: new_calls_def)
qed

subsection \<open>The order of the jobs\<close>

lemma handle_media_queue: "\<exists>js. queue (snd (handle_media A u r w)) = queue w @ js"
  by (cases r)
    (auto simp: handle_media_def effective_user_id_def update_message_def reply_text_def
      of_result_def io_return_def io_raise_def io_bind_def queue_put_def
      split: option.splits prod.splits)

lemma dispatch_queue: "\<exists>js. queue (snd (dispatch A u r w)) = queue w @ js"
proof -
  have "\<exists>js. queue (snd (start A u r w)) = queue w @ js"
    by (cases r)
      (auto simp: start_def effective_user_id_def update_message_def reply_text_def
        of_result_def io_return_def io_raise_def io_bind_def split: option.splits)
  moreover have "\<exists>js. queue (snd (handle_text_message A u r w)) = queue w @ js"
    by (cases r)
      (auto simp: handle_text_message_def effective_user_id_def update_message_def
        reply_text_def of_result_def io_return_def io_raise_def io_bind_def
        split: option.splits)
  ultimately show ?thesis
    using handle_media_queue [of A u r w] by (simp add: dispatch_def io_return_def)
qed

text \<open>
  With one worker task, the jobs finished, the job held and the jobs queued are the jobs
  that arrived, in their order; no step changes the number of tasks.
\<close>

lemma step_fifo:
  assumes "length (workers s) = 1"
    and "completed s @ in_progress s @ queue (world_of s) = arrived s"
  shows "length (workers (step A ev s)) = 1 \<and>
         completed (step A ev s) @ in_progress (step A ev s) @ queue (world_of (step A ev s)) =
         arrived (step A ev s)"
proof -
  obtain c where c: "workers s = [c]"
    using assms(1) by (cases "workers s") auto
  show ?thesis
  proof (cases ev)
    case (Inbound u r)
    obtain js where "queue (snd (dispatch A u r (world_of s))) = queue (world_of s) @ js"
      using dispatch_queue by blast
    then show ?thesis
      using assms Inbound by (simp add: step_def in_progress_def Let_def)
  next
    case (Get i)
    then show ?thesis
      using assms(2) c
      by (auto simp: step_def in_progress_def split: option.splits list.splits)
  next
    case (Run i env)
    then show ?thesis
      using assms(2) c handle_job_outcome
      by (auto simp: step_def in_progress_def split: option.splits)
  qed
qed

lemma run_fifo:
  assumes "length (workers s) = 1"
    and "completed s @ in_progress s @ queue (world_of s) = arrived s"
  shows "length (workers (run A evs s)) = 1 \<and>
         completed (run A evs s) @ in_progress (run A evs s) @ queue (world_of (run A evs s)) =
         arrived (run A evs s)"
  using assms
proof (induction evs arbitrary: s)
  case Nil
  then show ?case by (simp add: run_def)
next
  case (Cons ev evs)
  have "run A (ev # evs) s = run A evs (step A ev s)"
    by (simp add: run_def)
  then show ?case
    using Cons.IH step_fifo [OF Cons.prems] by simp
qed

lemma in_progress_one:
  assumes "length (workers s) = 1"
  shows "length (in_progress s) \<le> 1"
proof -
  obtain c where "workers s = [c]"
    using assms by (cases "workers s") auto
  then show ?thesis
    by (cases c) (simp_all add: in_progress_def)
qed

text \<open>
  C7, as stated, fails in its last part: a job can end with neither the text nor the
  error delivered. A whitelisted sender's voice message is put on the queue, taken by the
  worker and finished; the transcription fails and the edit to the error times out: apart
  from the first status reply nothing was delivered, and the exception is printed by the
  worker. The same end, with no call at all, when the temp directory cannot be made, and
  when the transcription fails and the handler cannot remove the download.
\<close>

theorem silent_drop_counterexample:
  "completed (run {5}
      [Inbound voice_update None, Get 0,
       Run 0 (ok_env\<lparr>transcribe_result := Inl (OtherException ''service unavailable''),
                     edit_error_result := Some (OtherException ''Timed out'')\<rparr>)]
      (post_init {})) =
     [\<lparr>file_id = ''AwACAg'', message_id = 90, is_video = False, file_name = Some ''voice.ogg''\<rparr>] \<and>
   calls (world_of (run {5}
      [Inbound voice_update None, Get 0,
       Run 0 (ok_env\<lparr>transcribe_result := Inl (OtherException ''service unavailable''),
                     edit_error_result := Some (OtherException ''Timed out'')\<rparr>)]
      (post_init {}))) =
     [(HandlerReply, ReplyText 90 TRANSCRIBING, None),
      (ErrorEdit, EditStatus 90 (ERROR_PREFIX @ ''service unavailable''),
       Some (OtherException ''Timed out''))] \<and>
   printed (world_of (run {5}
      [Inbound voice_update None, Get 0,
       Run 0 (ok_env\<lparr>transcribe_result := Inl (OtherException ''service unavailable''),
                     edit_error_result := Some (OtherException ''Timed out'')\<rparr>)]
      (post_init {}))) =
     [''[Worker] Error: Timed out''] \<and>
   calls (snd (handle_job (ok_env\<lparr>mkdir_result := Some (OtherException ''Permission denied'')\<rparr>)
      audio_job empty_world)) = [] \<and>
   printed (snd (handle_job (ok_env\<lparr>mkdir_result := Some (OtherException ''Permission denied'')\<rparr>)
      audio_job empty_world)) = [''[Worker] Error: Permission denied''] \<and>
   calls (snd (handle_job
      (ok_env\<lparr>transcribe_result := Inl (OtherException ''service unavailable''),
              cleanup_download_result := Some (OtherException ''Permission denied'')\<rparr>)
      audio_job empty_world)) = [] \<and>
   printed (snd (handle_job
      (ok_env\<lparr>transcribe_result := Inl (OtherException ''service unavailable''),
              cleanup_download_result := Some (OtherException ''Permission denied'')\<rparr>)
      audio_job empty_world)) = [''[Worker] Error: Permission denied'']"
  by (simp add: run_def step_def post_init_def dispatch_def handle_media_def
      effective_user_id_def update_message_def select_media_def is_user_allowed_def
      queue_put_def voice_update_def run_defs sample_defs)

text \<open>
  C7, amended. There is one worker task, so at most one job is held at any time; at every
  moment the jobs finished, the job held and the jobs on the queue are, in this order, the
  jobs in the order they were put on the queue, so that jobs are taken and finished
  first in, first out and none is lost. No exception leaves a turn of the worker on a
  job, the queue is not touched by it, and the turn has exactly one of three outcomes: the
  transcribed text was delivered; the error description was delivered; neither was, and
  the worker printed the exception. The third outcome needs a failure of \<open>mkdir\<close>, of a
  removal in the handler or of the edit to the error: when none of them fails, the text or
  the error description is delivered and the worker prints nothing. (Every call to the
  outside is taken to return.)
\<close>

theorem fifo_and_outcome:
  "length (in_progress (run A evs (post_init fs))) \<le> 1 \<and>
   completed (run A evs (post_init fs)) @ in_progress (run A evs (post_init fs)) @
     queue (world_of (run A evs (post_init fs))) = arrived (run A evs (post_init fs)) \<and>
   fst (handle_job env j w) = Inr () \<and>
   queue (snd (handle_job env j w)) = queue w \<and>
   (let cs = new_calls w (snd (handle_job env j w));
        ps = new_printed w (snd (handle_job env j w))
    in ((delivered_transcription cs \<and> \<not> delivered_error cs \<and> \<not> reported_by_worker ps) \<or>
        (delivered_error cs \<and> \<not> delivered_transcription cs \<and> \<not> reported_by_worker ps) \<or>
        (reported_by_worker ps \<and> \<not> delivered_transcription cs \<and> \<not> delivered_error cs)) \<and>
       (mkdir_result env = None \<and> cleanup_download_result env = None \<and>
        cleanup_audio_result env = None \<and> edit_error_result env = None \<longrightarrow>
          \<not> reported_by_worker ps \<and> (delivered_transcription cs \<or> delivered_error cs)))"
proof -
  have init: "length (workers (post_init fs)) = 1"
      "completed (post_init fs) @ in_progress (post_init fs) @ queue (world_of (post_init fs)) =
       arrived (post_init fs)"
    by (simp_all add: post_init_def in_progress_def)
  note fifo = run_fifo [OF init, of A evs]
  have one: "length (in_progress (run A evs (post_init fs))) \<le> 1"
    using fifo in_progress_one by blast
  obtain cs ps where o: "calls (snd (handle_job env j w)) = calls w @ cs"
      "printed (snd (handle_job env j w)) = printed w @ ps"
      "\<not> (delivered_transcription cs \<and> delivered_error cs)"
      "delivered_transcription cs \<or> delivered_error cs \<longleftrightarrow> \<not> reported_by_worker ps"
    using handle_job_outcome [of env j w] by auto
  have new: "new_calls w (snd (handle_job env j w)) = cs"
      "new_printed w (snd (handle_job env j w)) = ps"
    using o(1,2) by (simp_all add: new_calls_def new_printed_def)
  have three: "(delivered_transcription cs \<and> \<not> delivered_error cs \<and> \<not> reported_by_worker ps) \<or>
       (delivered_error cs \<and> \<not> delivered_transcription cs \<and> \<not> reported_by_worker ps) \<or>
       (reported_by_worker ps \<and> \<not> delivered_transcription cs \<and> \<not> delivered_error cs)"
    using o(3,4) by blast
  have good: "mkdir_result env = None \<and> cleanup_download_result env = None \<and>
      cleanup_audio_result env = None \<and> edit_error_result env = None \<longrightarrow>
      \<not> reported_by_worker ps \<and> (delivered_transcription cs \<or> delivered_error cs)"
    using handle_job_delivers [where env = env and j = j and w = w] new by auto
  show ?thesis
    using one fifo handle_job_outcome [of env j w] new three good by (simp add: Let_def)
qed

text \<open>
  Two voice messages arrive, the worker takes the first while the second waits; and a
  video job in an environment where nothing fails.
\<close>

theorem fifo_and_outcome_witness:
  "mkdir_result ok_env = None \<and> cleanup_download_result ok_env = None \<and>
   cleanup_audio_result ok_env = None \<and> edit_error_result ok_env = None \<and>
   \<not> reported_by_worker (new_printed empty_world (snd (handle_job ok_env video_job empty_world))) \<and>
   (delivered_transcription (new_calls empty_world (snd (handle_job ok_env video_job empty_world))) \<or>
    delivered_error (new_calls empty_world (snd (handle_job ok_env video_job empty_world)))) \<and>
   fst (handle_job ok_env video_job empty_world) = Inr () \<and>
   length (in_progress (run {5} [Inbound voice_update None, Get 0, Inbound voice_update None]
      (post_init {}))) \<le> 1 \<and>
   completed (run {5} [Inbound voice_update None, Get 0, Inbound voice_update None]
       (post_init {})) @
     in_progress (run {5} [Inbound voice_update None, Get 0, Inbound voice_update None]
       (post_init {})) @
     queue (world_of (run {5} [Inbound voice_update None, Get 0, Inbound voice_update None]
       (post_init {}))) =
     arrived (run {5} [Inbound voice_update None, Get 0, Inbound voice_update None]
       (post_init {}))"
  using fifo_and_outcome
    [of "{5}" "[Inbound voice_update None, Get 0, Inbound voice_update None]" "{}"
        ok_env video_job empty_world]
  by (simp add: ok_env_def Let_def)

end
